theory Spec2Isabelle
  imports Main
begin

section \<open>Data model\<close>

text \<open>
  The simulation core of the narrative training simulator lives in two React components:
  the base application (\<^verbatim>\<open>App\<close>) and the stricter Innovatec game
  (\<^verbatim>\<open>InnovatecGame\<close>). Both keep one \<^verbatim>\<open>GameState\<close> object and a handful
  of component-level state cells. JavaScript numbers are modelled as \<open>int\<close> (the authored
  content and every delta in the code are whole numbers), the value \<^verbatim>\<open>undefined\<close> as
  \<open>None\<close>, arrays as lists and plain objects used as dictionaries as maps.

  Field names follow the source. Where two object types share a field name, or the name
  is taken by a HOL constant, the field carries a short prefix. Fields that only the
  presentation layer reads (a stakeholder's portrait and mood, an option's expected
  actions for the scoring engine) are not part of the model.
\<close>

datatype CommitmentStatus = pending | fulfilled | broken

record Commitment =
  description :: string
  dayDue :: int
  status :: CommitmentStatus

datatype StakeholderStatus = normal | critical

record Stakeholder =
  sh_id :: string
  name :: string
  role :: string
  trust :: int
  support :: int
  minSupport :: int
  maxSupport :: int
  sh_status :: StakeholderStatus
  lastMetDay :: "int option"
  commitments :: "Commitment list"

record Consequences =
  trustChange :: "int option"
  supportChange :: "int option"
  budgetChange :: "int option"
  reputationChange :: "int option"
  projectProgressChange :: "int option"
  dialogueResponse :: string

record ScenarioOption =
  option_id :: string
  text_of :: string
  consequences :: Consequences

record ScenarioNode =
  node_id :: string
  node_stakeholderRole :: string
  dialogue :: string
  options :: "ScenarioOption list"

record ContingentRules =
  budgetBelow :: "int option"
  trustBelow :: "int option"
  supportBelow :: "int option"
  rule_stakeholderRole :: "string option"

record MeetingSequence =
  sequence_id :: string
  stakeholderRole :: string
  nodes :: "string list"
  initialDialogue :: string
  finalDialogue :: string
  isInevitable :: bool
  isContingent :: bool
  contingentRules :: "ContingentRules option"

record ScheduleEntry =
  sched_day :: int
  sched_slot :: string

record DecisionLogEntry =
  dl_day :: int
  dl_timeSlot :: "string option"
  dl_stakeholder :: string
  nodeId :: string
  choiceId :: string
  choiceText :: string
  dl_consequences :: Consequences

text \<open>
  \<^verbatim>\<open>GameState\<close>. The fields below are the ones the modelled operations read or write;
  every other field of the source object (notes, weekly schedule, calendar, mechanic logs, ...)
  is carried by the record's extension slot, so an operation stated on
  \<open>'a GameState_scheme\<close> is stated for the whole object: what it does not mention
  it leaves as it was.

  \<open>timeSlot\<close> is an option because \<^verbatim>\<open>TIME_SLOTS[i]\<close> is \<^verbatim>\<open>undefined\<close> when the
  slot table is empty.
\<close>

typedecl ProcessLogEntry

record InboxEmail =
  email_id :: string
  dayReceived :: int
  isRead :: bool

record EmailTemplate =
  tpl_email_id :: string
  trigger_type :: string
  trigger_stakeholder_id :: string

record GameState =
  playerName :: string
  day :: int
  timeSlot :: "string option"
  budget :: int
  reputation :: int
  projectProgress :: int
  stakeholders :: "Stakeholder list"
  history :: "int \<rightharpoonup> Stakeholder list"
  eventsLog :: "string list"
  completedSequences :: "string list"
  completedScenarios :: "string list"
  scenarioSchedule :: "string \<rightharpoonup> ScheduleEntry"
  criticalWarnings :: "string list"
  decisionLog :: "DecisionLogEntry list"
  processLog :: "ProcessLogEntry list"
  inbox :: "InboxEmail list"

text \<open>
  The component-level state cells of \<^verbatim>\<open>App\<close> (one \<^verbatim>\<open>useState\<close> each). An event
  handler reads the cells as they were when it started and its setter calls are applied
  together when it returns, so a handler is a function from the cells to the cells.
\<close>

datatype AppStep = version_selection | splash | game

datatype GameStatus = playing | won | lost

record PlayerAction =
  label :: string
  cost :: string
  action :: string

record Meeting =
  sequence :: MeetingSequence
  nodeIndex :: int

record 'a AppState =
  appStep :: AppStep
  gameState :: "'a GameState_scheme"
  characterInFocus :: "Stakeholder option"
  currentDialogue :: string
  playerActions :: "PlayerAction list"
  isLoading :: bool
  activeTab :: string
  countdown :: int
  isTimerPaused :: bool
  gameStatus :: GameStatus
  endGameMessage :: string
  currentMeeting :: "Meeting option"
  warningPopupMessage :: "string option"

text \<open>
  The authored content and the constants live in modules of their own
  (\<^verbatim>\<open>constants\<close>, \<^verbatim>\<open>data/scenarios\<close>), one set per component; the operations
  take them as one parameter. \<open>minProgress\<close>, \<open>requiredStakeholdersRoles\<close>, \<open>minTrustWithRequired\<close>
  and \<open>maxDeadline\<close> are the fields of \<^verbatim>\<open>DIRECTOR_OBJECTIVES\<close>.
\<close>

record Content =
  TIME_SLOTS :: "string list"
  SECRETARY_ROLE :: string
  minProgress :: int
  requiredStakeholdersRoles :: "string list"
  minTrustWithRequired :: int
  maxDeadline :: int
  sequences :: "MeetingSequence list"
  scenarios :: "ScenarioNode list"

section \<open>JavaScript helpers\<close>

text \<open>\<^verbatim>\<open>Array.prototype.indexOf\<close>: the first index holding the value, or \<open>-1\<close>.\<close>

fun indexOf :: "'a list \<Rightarrow> 'a \<Rightarrow> int" where
  "indexOf [] x = - 1"
| "indexOf (y # ys) x =
     (if y = x then 0 else (let i = indexOf ys x in if i < 0 then - 1 else i + 1))"

text \<open>\<^verbatim>\<open>TIME_SLOTS.indexOf(state.timeSlot)\<close>; an undefined slot is in no table.\<close>

definition slotIndex :: "string list \<Rightarrow> string option \<Rightarrow> int" where
  "slotIndex slots ts = (case ts of None \<Rightarrow> - 1 | Some t \<Rightarrow> indexOf slots t)"

text \<open>\<^verbatim>\<open>xs[i]\<close>: \<^verbatim>\<open>undefined\<close> outside the array.\<close>

definition js_nth :: "'a list \<Rightarrow> int \<Rightarrow> 'a option" where
  "js_nth xs i = (if 0 \<le> i \<and> i < int (length xs) then Some (xs ! nat i) else None)"

text \<open>
  Template literals print whole numbers in decimal (below \<open>10\<^sup>2\<^sup>1\<close>, far beyond any
  day count).
\<close>

definition digits :: string where
  "digits = ''0123456789''"

fun string_of_nat :: "nat \<Rightarrow> string" where
  "string_of_nat n =
     (if n < 10 then [digits ! n] else string_of_nat (n div 10) @ [digits ! (n mod 10)])"

declare string_of_nat.simps [simp del]

definition string_of_int :: "int \<Rightarrow> string" where
  "string_of_int i =
     (if i < 0 then CHR ''-'' # string_of_nat (nat (- i)) else string_of_nat (nat i))"

text \<open>The accented letters of the Spanish messages, as their UTF-8 bytes.\<close>

definition i_acute :: string where
  "i_acute = [CHR 0xC3, CHR 0xAD]"

definition n_tilde :: string where
  "n_tilde = [CHR 0xC3, CHR 0xB1]"

definition o_acute :: string where
  "o_acute = [CHR 0xC3, CHR 0xB3]"

definition inv_exclam :: string where
  "inv_exclam = [CHR 0xC2, CHR 0xA1]"

definition a_acute :: string where
  "a_acute = [CHR 0xC3, CHR 0xA1]"

definition e_acute :: string where
  "e_acute = [CHR 0xC3, CHR 0xA9]"

text \<open>
  \<^verbatim>\<open>text.replace(/{playerName}/g, rep)\<close>: every occurrence of the pattern, left to
  right, without overlap. The counter is the number of characters of a match still to be
  skipped. (The dollar patterns that \<^verbatim>\<open>replace\<close> expands in \<open>rep\<close> are not
  modelled; no property below reads the dialogue text.)
\<close>

fun replaceFrom :: "string \<Rightarrow> string \<Rightarrow> nat \<Rightarrow> string \<Rightarrow> string" where
  "replaceFrom pat rep k [] = []"
| "replaceFrom pat rep (Suc k) (c # cs) = replaceFrom pat rep k cs"
| "replaceFrom pat rep 0 (c # cs) =
     (if pat \<noteq> [] \<and> take (length pat) (c # cs) = pat
      then rep @ replaceFrom pat rep (length pat - 1) cs
      else c # replaceFrom pat rep 0 cs)"

definition personalize :: "string \<Rightarrow> string \<Rightarrow> string" where
  "personalize player txt = replaceFrom ''{playerName}'' player 0 txt"

text \<open>\<^verbatim>\<open>x ?? 0\<close> on an optional number.\<close>

definition orZero :: "int option \<Rightarrow> int" where
  "orZero v = (case v of None \<Rightarrow> 0 | Some x \<Rightarrow> x)"

section \<open>Clock and day rollover (base application)\<close>

text \<open>
  The commitment pass of the rollover: a pending commitment whose due day lies before
  the new day becomes broken, every other commitment is returned as it is.
\<close>

definition updateCommitments :: "int \<Rightarrow> Commitment list \<Rightarrow> Commitment list" where
  "updateCommitments nextDay cs =
     map (\<lambda>c. if status c = pending \<and> nextDay > dayDue c then c\<lparr>status := broken\<rparr> else c) cs"

definition brokenCount :: "Commitment list \<Rightarrow> int" where
  "brokenCount cs = int (length (filter (\<lambda>c. status c = broken) cs))"

definition rolloverStakeholder :: "int \<Rightarrow> Stakeholder \<Rightarrow> Stakeholder" where
  "rolloverStakeholder nextDay sh =
     (let updatedCommitments = updateCommitments nextDay (commitments sh);
          newlyBroken = brokenCount updatedCommitments - brokenCount (commitments sh);
          newTrust = max 0 (trust sh - newlyBroken * 20)
      in sh\<lparr>commitments := updatedCommitments, trust := newTrust\<rparr>)"

text \<open>
  \<^verbatim>\<open>advanceTime\<close> of the base application, over the slot table \<^verbatim>\<open>TIME_SLOTS\<close>.
\<close>

definition advanceTime :: "string list \<Rightarrow> 'a GameState_scheme \<Rightarrow> 'a GameState_scheme" where
  "advanceTime slots currentState =
     (let idx = slotIndex slots (timeSlot currentState) + 1;
          overflow = (idx \<ge> int (length slots));
          nextSlotIndex = (if overflow then 0 else idx);
          nextDay = (if overflow then day currentState + 1 else day currentState);
          historyUpdate = (if overflow then [day currentState \<mapsto> stakeholders currentState]
                           else Map.empty);
          nextSlot = js_nth slots nextSlotIndex;
          newState = currentState\<lparr>day := nextDay, timeSlot := nextSlot,
                                   history := history currentState ++ historyUpdate\<rparr>;
          rolled = (nextDay > day currentState);
          newEvents = (if rolled
                       then [''Ha comenzado el d'' @ i_acute @ ''a '' @ string_of_int nextDay @ ''.'']
                       else []);
          newState2 = (if rolled
                       then newState\<lparr>stakeholders :=
                              map (rolloverStakeholder nextDay) (stakeholders newState)\<rparr>
                       else newState)
      in newState2\<lparr>eventsLog := eventsLog newState2 @ newEvents\<rparr>)"


section \<open>Event scheduler (base application)\<close>

definition shouldTriggerContingentSequence ::
  "MeetingSequence \<Rightarrow> 'a GameState_scheme \<Rightarrow> bool" where
  "shouldTriggerContingentSequence sq state =
     (if \<not> isContingent sq then False
      else case contingentRules sq of
        None \<Rightarrow> False
      | Some rules \<Rightarrow>
          if (case budgetBelow rules of Some b \<Rightarrow> budget state \<ge> b | None \<Rightarrow> False) then False
          else if trustBelow rules \<noteq> None \<or> supportBelow rules \<noteq> None then
            (let roleToCheck = (case rule_stakeholderRole rules of
                                  Some r \<Rightarrow> r | None \<Rightarrow> stakeholderRole sq)
             in case find (\<lambda>s. role s = roleToCheck) (stakeholders state) of
                  None \<Rightarrow> False
                | Some stakeholder \<Rightarrow>
                    if (case trustBelow rules of
                          Some t \<Rightarrow> trust stakeholder \<ge> t | None \<Rightarrow> False) then False
                    else if (case supportBelow rules of
                          Some u \<Rightarrow> support stakeholder \<ge> u | None \<Rightarrow> False) then False
                    else True)
          else True)"

text \<open>
  \<^verbatim>\<open>startSequence(sequence, stakeholder, options)\<close>; the three optional members of
  \<^verbatim>\<open>options\<close> are separate arguments.
\<close>

definition startSequence ::
  "MeetingSequence \<Rightarrow> Stakeholder \<Rightarrow> bool option \<Rightarrow> string option \<Rightarrow> string option
     \<Rightarrow> 'a AppState \<Rightarrow> 'a AppState" where
  "startSequence sq stakeholder pauseTimer actionLabelOpt actionCostOpt st =
     (let actionLabel = (case actionLabelOpt of Some l \<Rightarrow> l | None \<Rightarrow> ''Comenzar Reunion'');
          actionCost = (case actionCostOpt of Some c \<Rightarrow> c | None \<Rightarrow> ''Tiempo'');
          shouldPause = (case pauseTimer of
                           Some p \<Rightarrow> p | None \<Rightarrow> isInevitable sq \<or> isContingent sq);
          st1 = st\<lparr>activeTab := ''interaction'',
                   characterInFocus := Some stakeholder,
                   currentMeeting := Some \<lparr>sequence = sq, nodeIndex = 0\<rparr>,
                   currentDialogue := personalize (playerName (gameState st)) (initialDialogue sq),
                   playerActions := [\<lparr>label = actionLabel, cost = actionCost,
                                      action = ''start_meeting_sequence''\<rparr>]\<rparr>
      in if shouldPause then st1\<lparr>isTimerPaused := True\<rparr> else st1)"

text \<open>
  \<^verbatim>\<open>scenarioSchedule[id]?.day === state.day\<close> and the same for the slot: a missing
  entry yields \<^verbatim>\<open>undefined\<close> on the left.
\<close>

definition scheduledNow :: "'a GameState_scheme \<Rightarrow> MeetingSequence \<Rightarrow> bool" where
  "scheduledNow gs sq =
     (map_option sched_day (scenarioSchedule gs (sequence_id sq)) = Some (day gs) \<and>
      map_option sched_slot (scenarioSchedule gs (sequence_id sq)) = timeSlot gs)"

text \<open>The two searches of the scheduler effect (and of the proactive blocking check).\<close>

definition inevitableSeq :: "Content \<Rightarrow> 'a GameState_scheme \<Rightarrow> MeetingSequence option" where
  "inevitableSeq cfg gs =
     find (\<lambda>sq. isInevitable sq \<and> sequence_id sq \<notin> set (completedSequences gs) \<and>
                scheduledNow gs sq) (sequences cfg)"

definition contingentSeq :: "Content \<Rightarrow> 'a GameState_scheme \<Rightarrow> MeetingSequence option" where
  "contingentSeq cfg gs =
     find (\<lambda>sq. isContingent sq \<and> sequence_id sq \<notin> set (completedSequences gs) \<and>
                shouldTriggerContingentSequence sq gs) (sequences cfg)"

text \<open>The scheduler effect: the body of the third \<^verbatim>\<open>useEffect\<close> of \<^verbatim>\<open>App\<close>.\<close>

definition schedulerEffect :: "Content \<Rightarrow> 'a AppState \<Rightarrow> 'a AppState" where
  "schedulerEffect cfg st =
     (if appStep st \<noteq> game \<or> gameStatus st \<noteq> playing \<or> currentMeeting st \<noteq> None then st
      else
        (let gs = gameState st;
             sequenceToStart = (case inevitableSeq cfg gs of
                                  Some sq \<Rightarrow> Some sq | None \<Rightarrow> contingentSeq cfg gs)
         in case sequenceToStart of
              None \<Rightarrow> st
            | Some sq \<Rightarrow>
                (case find (\<lambda>s. role s = stakeholderRole sq) (stakeholders gs) of
                   None \<Rightarrow> st
                 | Some stakeholder \<Rightarrow>
                     startSequence sq stakeholder (Some True)
                       (Some (if isInevitable sq then ''Atender Situacion Inevitable''
                              else ''Atender Evento Contingente''))
                       (Some ''Obligatorio'') st)))"

section \<open>Win condition and critical warnings (base application)\<close>

definition governabilityWarning :: "Stakeholder \<Rightarrow> string" where
  "governabilityWarning s =
     ''Crisis de Gobernabilidad: '' @ name s @ '' ('' @ role s @ '') est'' @ a_acute @
     '' boicoteando activamente su gesti'' @ o_acute @ ''n.''"

definition deadlineWarning :: string where
  "deadlineWarning = ''Gesti'' @ o_acute @ ''n Fallida: Plazo Excedido.''"

definition winMessage :: string where
  "winMessage = inv_exclam @ ''Gesti'' @ o_acute @
     ''n Exitosa! Has logrado alinear a los tres sectores. El CESFAM opera con un '' @
     ''equilibrio razonable entre calidad, normativa y comunidad.''"

text \<open>
  One step of the \<^verbatim>\<open>forEach\<close> over the required stakeholders; the accumulator is
  \<^verbatim>\<open>(newWarnings, updatedStakeholders, stakeholdersWereUpdated)\<close>.
\<close>

definition warnStep ::
  "Content \<Rightarrow> string list \<Rightarrow> Stakeholder
     \<Rightarrow> string list \<times> Stakeholder list \<times> bool \<Rightarrow> string list \<times> Stakeholder list \<times> bool" where
  "warnStep cfg warnings s acc =
     (case acc of (newWarnings, updatedStakeholders, wereUpdated) \<Rightarrow>
        if trust s < minTrustWithRequired cfg \<and> sh_status s \<noteq> critical
        then (if governabilityWarning s \<notin> set warnings
              then (newWarnings @ [governabilityWarning s],
                    map (\<lambda>sh. if name sh = name s then sh\<lparr>sh_status := critical\<rparr> else sh)
                        updatedStakeholders,
                    True)
              else acc)
        else acc)"

definition winConditionEffect :: "Content \<Rightarrow> 'a AppState \<Rightarrow> 'a AppState" where
  "winConditionEffect cfg st =
     (if gameStatus st \<noteq> playing \<or> appStep st \<noteq> game then st
      else
        (let gs = gameState st in
         if projectProgress gs \<ge> minProgress cfg
         then st\<lparr>endGameMessage := winMessage, gameStatus := won\<rparr>
         else
           (let requiredStakeholders =
                  filter (\<lambda>s. role s \<in> set (requiredStakeholdersRoles cfg)) (stakeholders gs);
                acc = fold (warnStep cfg (criticalWarnings gs)) requiredStakeholders
                        ([], stakeholders gs, False);
                newWarnings1 = fst acc;
                updatedStakeholders = fst (snd acc);
                stakeholdersWereUpdated = snd (snd acc);
                newWarnings =
                  (if day gs > maxDeadline cfg \<and> deadlineWarning \<notin> set (criticalWarnings gs)
                   then newWarnings1 @ [deadlineWarning] else newWarnings1)
            in if newWarnings \<noteq> []
               then st\<lparr>gameState :=
                          (if stakeholdersWereUpdated
                           then gs\<lparr>stakeholders := updatedStakeholders,
                                   criticalWarnings := criticalWarnings gs @ newWarnings\<rparr>
                           else gs\<lparr>criticalWarnings := criticalWarnings gs @ newWarnings\<rparr>),
                        warningPopupMessage := Some (hd newWarnings),
                        isTimerPaused := True\<rparr>
               else st)))"

section \<open>Sequence state machine and player actions (base application)\<close>

definition PERIOD_DURATION :: int where
  "PERIOD_DURATION = 90"

text \<open>
  \<^verbatim>\<open>presentScenario\<close>. The calls into the time logger and the mechanic engine are
  notifications to services outside the state cells and have no counterpart here.
\<close>

definition presentScenario :: "ScenarioNode \<Rightarrow> 'a AppState \<Rightarrow> 'a AppState" where
  "presentScenario scenario st =
     (let st1 = (case find (\<lambda>s. role s = node_stakeholderRole scenario)
                        (stakeholders (gameState st)) of
                   Some activeStakeholder \<Rightarrow> st\<lparr>characterInFocus := Some activeStakeholder\<rparr>
                 | None \<Rightarrow> st)
      in st1\<lparr>currentDialogue := personalize (playerName (gameState st)) (dialogue scenario),
             playerActions := map (\<lambda>opt. \<lparr>label = text_of opt,
                                           cost = ''Decisi'' @ o_acute @ ''n'',
                                           action = option_id opt\<rparr>) (options scenario)\<rparr>)"

text \<open>
  The first half of \<^verbatim>\<open>advanceTimeAndUpdateFocus\<close>: the state handed to
  \<^verbatim>\<open>advanceTime\<close>. \<^verbatim>\<open>justCompletedSequenceId && ...\<close> is a truthiness test, which
  an absent id and the empty string both fail.
\<close>

definition stateAfterMeetingEnd ::
  "Content \<Rightarrow> string option \<Rightarrow> Stakeholder option \<Rightarrow> 'a GameState_scheme
     \<Rightarrow> 'a GameState_scheme" where
  "stateAfterMeetingEnd cfg justCompletedSequenceId focus gs =
     (let s1 = (case justCompletedSequenceId of
                  Some sid \<Rightarrow>
                    if sid \<noteq> [] \<and> sid \<notin> set (completedSequences gs)
                    then gs\<lparr>completedSequences := completedSequences gs @ [sid]\<rparr>
                    else gs
                | None \<Rightarrow> gs)
      in case focus of
           Some ch \<Rightarrow>
             if role ch \<noteq> SECRETARY_ROLE cfg
             then s1\<lparr>stakeholders :=
                       map (\<lambda>sh. if name sh = name ch then sh\<lparr>lastMetDay := Some (day gs)\<rparr>
                                  else sh) (stakeholders s1)\<rparr>
             else s1
         | None \<Rightarrow> s1)"

text \<open>
  \<^verbatim>\<open>advanceTimeAndUpdateFocus\<close>. The closing \<^verbatim>\<open>syncLogs()\<close> copies the mechanic
  engine's buffers into log fields of the game state that no operation here reads; it
  runs every second anyway and is left out.
\<close>

definition advanceTimeAndUpdateFocus ::
  "Content \<Rightarrow> string option \<Rightarrow> 'a AppState \<Rightarrow> 'a AppState" where
  "advanceTimeAndUpdateFocus cfg justCompletedSequenceId st =
     (let newState = advanceTime (TIME_SLOTS cfg)
                       (stateAfterMeetingEnd cfg justCompletedSequenceId
                          (characterInFocus st) (gameState st))
      in st\<lparr>gameState := newState, characterInFocus := None, countdown := PERIOD_DURATION\<rparr>)"

text \<open>
  One firing of the one-second interval of the timer effect. The effect installs the
  interval only while its guard holds and removes it when a cell of the guard changes.
\<close>

definition timerTick :: "Content \<Rightarrow> 'a AppState \<Rightarrow> 'a AppState" where
  "timerTick cfg st =
     (if isTimerPaused st \<or> activeTab st \<noteq> ''interaction'' \<or> gameStatus st \<noteq> playing
         \<or> appStep st \<noteq> game
      then st
      else if countdown st \<le> 1
      then (advanceTimeAndUpdateFocus cfg None st)\<lparr>countdown := PERIOD_DURATION\<rparr>
      else st\<lparr>countdown := countdown st - 1\<rparr>)"

definition handleManualAdvance :: "Content \<Rightarrow> 'a AppState \<Rightarrow> 'a AppState" where
  "handleManualAdvance cfg st = advanceTimeAndUpdateFocus cfg None st"

definition handleExecuteWeek :: "'a AppState \<Rightarrow> 'a AppState" where
  "handleExecuteWeek st =
     (let prev = gameState st; jumpDays = 5
      in st\<lparr>gameState :=
               prev\<lparr>day := day prev + jumpDays,
                    eventsLog := eventsLog prev @
                      [''Semana Ejecutada. Avanzado al d'' @ i_acute @ ''a '' @
                       string_of_int (day prev + jumpDays) @ ''.'']\<rparr>,
             warningPopupMessage := Some (''Semana ejecutada con '' @ e_acute @ ''xito.''),
             activeTab := ''interaction''\<rparr>)"

definition handleSetupScheduleWar :: "'a AppState \<Rightarrow> 'a AppState" where
  "handleSetupScheduleWar st =
     st\<lparr>activeTab := ''schedule'', currentMeeting := None, characterInFocus := None,
        warningPopupMessage :=
          Some (inv_exclam @ ''PROPUESTAS DE JEFATURAS CARGADAS!'')\<rparr>"

text \<open>
  The state update of an option selection (the function handed to \<^verbatim>\<open>setGameState\<close>
  inside \<^verbatim>\<open>handlePlayerAction\<close>): \<open>ch\<close> is the character in focus, \<open>pl\<close> the entry
  returned by the time logger, if any.
\<close>

definition applyConsequences ::
  "Stakeholder \<Rightarrow> ScenarioNode \<Rightarrow> ScenarioOption \<Rightarrow> PlayerAction \<Rightarrow> ProcessLogEntry option
     \<Rightarrow> 'a GameState_scheme \<Rightarrow> 'a GameState_scheme" where
  "applyConsequences ch scenario opt act pl prev =
     (let cons = consequences opt;
          newStakeholders =
            map (\<lambda>sh. if name sh = name ch
                       then sh\<lparr>trust := max 0 (min 100 (trust sh + orZero (trustChange cons))),
                               support := max (minSupport sh)
                                            (min (maxSupport sh)
                                               (support sh + orZero (supportChange cons)))\<rparr>
                       else sh) (stakeholders prev);
          decisionEntry = \<lparr>dl_day = day prev, dl_timeSlot = timeSlot prev,
                           dl_stakeholder = name ch, nodeId = node_id scenario,
                           choiceId = option_id opt, choiceText = text_of opt,
                           dl_consequences = cons\<rparr>
      in prev\<lparr>budget := budget prev + orZero (budgetChange cons),
              reputation := max 0 (min 100 (reputation prev + orZero (reputationChange cons))),
              projectProgress :=
                max 0 (min 100 (projectProgress prev + orZero (projectProgressChange cons))),
              stakeholders := newStakeholders,
              completedScenarios := completedScenarios prev @ [node_id scenario],
              eventsLog := eventsLog prev @ [''Decisi'' @ o_acute @ ''n: '' @ label act],
              processLog := (case pl of Some e \<Rightarrow> processLog prev @ [e]
                                      | None \<Rightarrow> processLog prev),
              decisionLog := decisionLog prev @ [decisionEntry]\<rparr>)"

text \<open>The action offered after an option has been chosen.\<close>

definition followUpActions :: "Meeting option \<Rightarrow> PlayerAction list" where
  "followUpActions cm =
     (case cm of
        Some m \<Rightarrow>
          if nodeIndex m \<ge> int (length (nodes (sequence m))) - 1
          then [\<lparr>label = ''Finalizar Discusi'' @ o_acute @ ''n'', cost = ''Continuar'',
                 action = ''end_meeting_sequence''\<rparr>]
          else [\<lparr>label = ''Continuar...'', cost = ''Continuar'',
                 action = ''continue_meeting_sequence''\<rparr>]
      | None \<Rightarrow>
          [\<lparr>label = ''Concluir Reuni'' @ o_acute @ ''n'', cost = ''Finalizar'',
            action = ''conclude_meeting''\<rparr>])"

text \<open>
  The tail of \<^verbatim>\<open>handlePlayerAction\<close>: the action is taken as the id of an option of
  the scenario on display.
\<close>

definition selectOption ::
  "Content \<Rightarrow> ProcessLogEntry option \<Rightarrow> PlayerAction \<Rightarrow> Stakeholder \<Rightarrow> 'a AppState
     \<Rightarrow> 'a AppState" where
  "selectOption cfg pl act ch st =
     (let currentScenarioId =
            (case currentMeeting st of
               Some m \<Rightarrow> js_nth (nodes (sequence m)) (nodeIndex m)
             | None \<Rightarrow> Some [])
      in case find (\<lambda>s. Some (node_id s) = currentScenarioId) (scenarios cfg) of
           None \<Rightarrow> st\<lparr>isLoading := False\<rparr>
         | Some scenario \<Rightarrow>
             (case find (\<lambda>x. option_id x = action act) (options scenario) of
                None \<Rightarrow> st\<lparr>isLoading := False\<rparr>
              | Some opt \<Rightarrow>
                  st\<lparr>gameState := applyConsequences ch scenario opt act pl (gameState st),
                     currentDialogue := personalize (playerName (gameState st))
                                          (dialogueResponse (consequences opt)),
                     playerActions := followUpActions (currentMeeting st),
                     countdown := PERIOD_DURATION,
                     isLoading := False\<rparr>))"

text \<open>
  \<^verbatim>\<open>handlePlayerAction\<close>. The three sequence actions are only recognised while a
  meeting is active; everything else falls through to \<^verbatim>\<open>conclude_meeting\<close> and then
  to the option selection.
\<close>

definition handlePlayerAction ::
  "Content \<Rightarrow> ProcessLogEntry option \<Rightarrow> PlayerAction \<Rightarrow> 'a AppState \<Rightarrow> 'a AppState" where
  "handlePlayerAction cfg pl act st =
     (if gameStatus st \<noteq> playing then st
      else if action act = ''open_conflicted_schedule'' then handleSetupScheduleWar st
      else case characterInFocus st of
        None \<Rightarrow> st\<lparr>isLoading := False\<rparr>
      | Some ch \<Rightarrow>
          (case currentMeeting st of
             Some m \<Rightarrow>
               if action act = ''start_meeting_sequence'' then
                 (case find (\<lambda>s. Some (node_id s) = js_nth (nodes (sequence m)) 0)
                         (scenarios cfg) of
                    Some scenario \<Rightarrow> (presentScenario scenario st)\<lparr>isLoading := False\<rparr>
                  | None \<Rightarrow> st\<lparr>isLoading := False\<rparr>)
               else if action act = ''continue_meeting_sequence'' then
                 (let nextNodeIndex = nodeIndex m + 1;
                      st1 = st\<lparr>currentMeeting := Some (m\<lparr>nodeIndex := nextNodeIndex\<rparr>)\<rparr>
                  in case find (\<lambda>s. Some (node_id s) =
                                       js_nth (nodes (sequence m)) nextNodeIndex)
                            (scenarios cfg) of
                       Some nextScenario \<Rightarrow>
                         (presentScenario nextScenario st1)\<lparr>isLoading := False\<rparr>
                     | None \<Rightarrow> st1\<lparr>isLoading := False\<rparr>)
               else if action act = ''end_meeting_sequence'' then
                 st\<lparr>currentDialogue := personalize (playerName (gameState st))
                                         (finalDialogue (sequence m)),
                    playerActions := [\<lparr>label = ''Concluir Reuni'' @ o_acute @ ''n'',
                                       cost = ''Finalizar'', action = ''conclude_meeting''\<rparr>],
                    isLoading := False\<rparr>
               else if action act = ''conclude_meeting'' then
                 (advanceTimeAndUpdateFocus cfg (Some (sequence_id (sequence m)))
                    (st\<lparr>currentMeeting := None\<rparr>))\<lparr>isLoading := False\<rparr>
               else selectOption cfg pl act ch st
           | None \<Rightarrow>
               if action act = ''conclude_meeting'' then
                 (advanceTimeAndUpdateFocus cfg None st)\<lparr>isLoading := False\<rparr>
               else selectOption cfg pl act ch st))"

section \<open>The Innovatec variant\<close>

text \<open>
  \<^verbatim>\<open>InnovatecGame\<close> has its own \<^verbatim>\<open>advanceTime\<close>. It writes one events-log line per
  commitment it breaks and charges a neglect penalty on top of the breakage penalty.
\<close>

definition brokenPromiseEvents :: "int \<Rightarrow> Stakeholder \<Rightarrow> string list" where
  "brokenPromiseEvents nextDay sh =
     map (\<lambda>c. inv_exclam @ ''Promesa a '' @ name sh @ '' ('' @ [CHR 0x27] @ description c @
               [CHR 0x27] @ '') rota! La confianza ha sido da'' @ n_tilde @ ''ada.'')
         (filter (\<lambda>c. status c = pending \<and> nextDay > dayDue c) (commitments sh))"

definition rolloverStakeholder_innovatec :: "string \<Rightarrow> int \<Rightarrow> int \<Rightarrow> Stakeholder \<Rightarrow> Stakeholder" where
  "rolloverStakeholder_innovatec secretaryRole currentDay nextDay sh =
     (let updatedCommitments = updateCommitments nextDay (commitments sh);
          newlyBrokenCount = brokenCount updatedCommitments - brokenCount (commitments sh);
          newTrust = trust sh - newlyBrokenCount * 20;
          newTrust2 = (if role sh \<noteq> secretaryRole
                          \<and> (case lastMetDay sh of Some d \<Rightarrow> d | None \<Rightarrow> 0) < currentDay - 3
                       then newTrust - 2 else newTrust)
      in sh\<lparr>commitments := updatedCommitments, trust := max 0 newTrust2\<rparr>)"

definition advanceTime_innovatec :: "Content \<Rightarrow> 'a GameState_scheme \<Rightarrow> 'a GameState_scheme" where
  "advanceTime_innovatec cfg currentState =
     (let idx = slotIndex (TIME_SLOTS cfg) (timeSlot currentState) + 1;
          overflow = (idx \<ge> int (length (TIME_SLOTS cfg)));
          nextSlotIndex = (if overflow then 0 else idx);
          nextDay = (if overflow then day currentState + 1 else day currentState);
          historyUpdate = (if overflow then [day currentState \<mapsto> stakeholders currentState]
                           else Map.empty);
          nextSlot = js_nth (TIME_SLOTS cfg) nextSlotIndex;
          newState = currentState\<lparr>day := nextDay, timeSlot := nextSlot,
                                   history := history currentState ++ historyUpdate\<rparr>;
          rolled = (nextDay > day currentState);
          newEvents = (if rolled
                       then [''Ha comenzado el d'' @ i_acute @ ''a '' @ string_of_int nextDay @
                             ''. Un nuevo d'' @ i_acute @ ''a trae nuevos desaf'' @ i_acute @
                             ''os.'']
                            @ concat (map (brokenPromiseEvents nextDay) (stakeholders newState))
                       else []);
          newState2 = (if rolled
                       then newState\<lparr>stakeholders :=
                              map (rolloverStakeholder_innovatec (SECRETARY_ROLE cfg)
                                     (day currentState) nextDay)
                                  (stakeholders newState)\<rparr>
                       else newState)
      in newState2\<lparr>eventsLog := eventsLog newState2 @ newEvents\<rparr>)"

text \<open>
  The state update of an option selection in \<^verbatim>\<open>InnovatecGame\<close>. The decision-log entry
  is built before the update from the state the handler sees (\<open>gs\<close>).
\<close>

definition applyConsequences_innovatec ::
  "Stakeholder \<Rightarrow> ScenarioNode \<Rightarrow> ScenarioOption \<Rightarrow> PlayerAction \<Rightarrow> ProcessLogEntry option
     \<Rightarrow> 'a GameState_scheme \<Rightarrow> 'a GameState_scheme \<Rightarrow> 'a GameState_scheme" where
  "applyConsequences_innovatec ch scenario opt act pl gs prev =
     (let cons = consequences opt;
          decisionLogEntry = \<lparr>dl_day = day gs, dl_timeSlot = timeSlot gs,
                              dl_stakeholder = name ch, nodeId = node_id scenario,
                              choiceId = option_id opt, choiceText = text_of opt,
                              dl_consequences = cons\<rparr>;
          newStakeholders =
            map (\<lambda>sh. if name sh = name ch
                       then sh\<lparr>trust := max 0 (min 100 (trust sh + orZero (trustChange cons))),
                               support := max (minSupport sh)
                                            (min (maxSupport sh)
                                               (support sh + orZero (supportChange cons)))\<rparr>
                       else sh) (stakeholders prev)
      in prev\<lparr>budget := budget prev + orZero (budgetChange cons),
              reputation := max 0 (min 100 (reputation prev + orZero (reputationChange cons))),
              projectProgress :=
                max 0 (min 100 (projectProgress prev + orZero (projectProgressChange cons))),
              stakeholders := newStakeholders,
              completedScenarios := completedScenarios prev @ [node_id scenario],
              eventsLog := eventsLog prev @
                [''Decisi'' @ o_acute @ ''n con '' @ name ch @ '': '' @ label act],
              decisionLog := decisionLog prev @ [decisionLogEntry],
              processLog := (case pl of Some e \<Rightarrow> processLog prev @ [e]
                                      | None \<Rightarrow> processLog prev)\<rparr>)"

text \<open>
  \<^verbatim>\<open>advanceTimeAndUpdateFocus\<close> of \<^verbatim>\<open>InnovatecGame\<close>, up to the state it hands to
  \<^verbatim>\<open>setGameState\<close>. After a completed sequence it may first drop one availability
  email of the stakeholder into the inbox, chosen at random among the matching
  templates: \<open>rnd\<close> stands for the random draw and \<open>rnd mod n\<close> for
  \<^verbatim>\<open>Math.floor(Math.random() * n)\<close>, so every index below \<open>n\<close> can come out and none
  outside. What the function does afterwards (choosing the next focus, cancelling a
  calendar entry) does not touch the fields modelled here.
\<close>

definition newStateAfterMeeting_innovatec ::
  "Content \<Rightarrow> EmailTemplate list \<Rightarrow> nat \<Rightarrow> string option \<Rightarrow> Stakeholder option
     \<Rightarrow> 'a GameState_scheme \<Rightarrow> 'a GameState_scheme" where
  "newStateAfterMeeting_innovatec cfg templates rnd justCompletedSequenceId previousCharacter
     gameState0 =
     (let currentState =
            (case justCompletedSequenceId of
               Some sid \<Rightarrow>
                 if sid \<noteq> [] \<and> sid \<notin> set (completedSequences gameState0)
                 then gameState0\<lparr>completedSequences := completedSequences gameState0 @ [sid]\<rparr>
                 else gameState0
             | None \<Rightarrow> gameState0);
          completedOne = (case justCompletedSequenceId of Some sid \<Rightarrow> sid \<noteq> [] | None \<Rightarrow> False);
          currentState2 =
            (case previousCharacter of
               Some pc \<Rightarrow>
                 if completedOne then
                   (let hasAlreadyReceivedAvailabilityEmail =
                          list_ex (\<lambda>inboxEmail.
                             case find (\<lambda>t. tpl_email_id t = email_id inboxEmail) templates of
                               None \<Rightarrow> False
                             | Some template \<Rightarrow>
                                 trigger_type template = ''ON_MEETING_COMPLETE'' \<and>
                                 trigger_stakeholder_id template = sh_id pc)
                            (inbox currentState);
                        matchingTemplates =
                          filter (\<lambda>t. trigger_type t = ''ON_MEETING_COMPLETE'' \<and>
                                       trigger_stakeholder_id t = sh_id pc) templates
                    in if \<not> hasAlreadyReceivedAvailabilityEmail \<and> matchingTemplates \<noteq> []
                       then currentState\<lparr>inbox := inbox currentState @
                              [\<lparr>email_id = tpl_email_id
                                   (matchingTemplates ! (rnd mod length matchingTemplates)),
                                dayReceived = day currentState, isRead = False\<rparr>]\<rparr>
                       else currentState)
                 else currentState
             | None \<Rightarrow> currentState);
          stateAfterMeetingEnd =
            (case previousCharacter of
               Some pc \<Rightarrow>
                 if role pc \<noteq> SECRETARY_ROLE cfg
                 then currentState2\<lparr>stakeholders :=
                        map (\<lambda>sh. if name sh = name pc
                                   then sh\<lparr>lastMetDay := Some (day currentState2)\<rparr> else sh)
                            (stakeholders currentState2)\<rparr>
                 else currentState2
             | None \<Rightarrow> currentState2)
      in advanceTime_innovatec cfg stateAfterMeetingEnd)"

text \<open>
  \<^verbatim>\<open>presentScenario\<close> of \<^verbatim>\<open>InnovatecGame\<close>; it does not move the focus.
\<close>

definition presentScenario_innovatec ::
  "ScenarioNode \<Rightarrow> ('a, 'b) AppState_scheme \<Rightarrow> ('a, 'b) AppState_scheme" where
  "presentScenario_innovatec scenario st =
     st\<lparr>currentDialogue := personalize (playerName (gameState st)) (dialogue scenario),
        playerActions := map (\<lambda>opt. \<lparr>label = text_of opt,
                                      cost = ''Decisi'' @ o_acute @ ''n'',
                                      action = option_id opt\<rparr>) (options scenario)\<rparr>"

text \<open>
  The head of \<^verbatim>\<open>handlePlayerAction\<close> of \<^verbatim>\<open>InnovatecGame\<close>: its guard, the clearing
  of the dialogue and the three sequence actions. The result is \<open>Some\<close> of the new cells
  when the handler returns in this part, and \<open>None\<close> when it goes on to the secretary's
  scheduling actions, \<^verbatim>\<open>conclude_meeting\<close> and the option selection. The cells that this
  part reads and writes carry the same names and types as in \<^verbatim>\<open>App\<close>; the other cells
  of \<^verbatim>\<open>InnovatecGame\<close> (the secretary, the scheduling state, ...) ride in the extension
  slot, and \<open>appStep\<close>, which \<^verbatim>\<open>InnovatecGame\<close> does not have, is not read.
\<close>

definition sequenceAction_innovatec ::
  "Content \<Rightarrow> PlayerAction \<Rightarrow> ('a, 'b) AppState_scheme
     \<Rightarrow> ('a, 'b) AppState_scheme option" where
  "sequenceAction_innovatec cfg act st =
     (if characterInFocus st = None \<or> gameStatus st \<noteq> playing then Some st
      else
        (let st0 = st\<lparr>currentDialogue := personalize (playerName (gameState st)) []\<rparr>
         in case currentMeeting st of
              None \<Rightarrow> None
            | Some m \<Rightarrow>
                if action act = ''start_meeting_sequence'' then
                  (case find (\<lambda>s. Some (node_id s) = js_nth (nodes (sequence m)) 0)
                          (scenarios cfg) of
                     Some scenario \<Rightarrow>
                       Some ((presentScenario_innovatec scenario st0)\<lparr>isLoading := False\<rparr>)
                   | None \<Rightarrow> Some (st0\<lparr>isLoading := False\<rparr>))
                else if action act = ''continue_meeting_sequence'' then
                  (let nextNodeIndex = nodeIndex m + 1;
                       st1 = st0\<lparr>currentMeeting := Some (m\<lparr>nodeIndex := nextNodeIndex\<rparr>)\<rparr>
                   in case find (\<lambda>s. Some (node_id s) =
                                        js_nth (nodes (sequence m)) nextNodeIndex)
                             (scenarios cfg) of
                        Some nextScenario \<Rightarrow>
                          Some ((presentScenario_innovatec nextScenario st1)\<lparr>isLoading := False\<rparr>)
                      | None \<Rightarrow> Some (st1\<lparr>isLoading := False\<rparr>))
                else if action act = ''end_meeting_sequence'' then
                  Some (st0\<lparr>currentDialogue := personalize (playerName (gameState st))
                                                  (finalDialogue (sequence m)),
                            playerActions := [\<lparr>label = ''Concluir Reuni'' @ o_acute @ ''n'',
                                               cost = ''Finalizar'',
                                               action = ''conclude_meeting''\<rparr>],
                            isLoading := False\<rparr>)
                else None))"

section \<open>Vocabulary of the properties\<close>

text \<open>
  The clock stands on a day boundary when the next slot index runs past the slot table:
  this is the overflow test of \<^verbatim>\<open>advanceTime\<close>.
\<close>

definition dayBoundary :: "string list \<Rightarrow> 'a GameState_scheme \<Rightarrow> bool" where
  "dayBoundary slots s = (slotIndex slots (timeSlot s) + 1 \<ge> int (length slots))"

text \<open>
  The number of commitments newly broken between two commitment lists of one stakeholder:
  the positions that were not broken before and are broken after.
\<close>

definition newlyBroken :: "Commitment list \<Rightarrow> Commitment list \<Rightarrow> int" where
  "newlyBroken before after =
     int (length (filter (\<lambda>(c, c'). status c \<noteq> broken \<and> status c' = broken)
                    (zip before after)))"

text \<open>
  The numeric ranges of the data model: trust, reputation and project progress within
  \<open>[0, 100]\<close>, support within the stakeholder's own bounds.
\<close>

definition stakeholderInRange :: "Stakeholder \<Rightarrow> bool" where
  "stakeholderInRange sh =
     (0 \<le> trust sh \<and> trust sh \<le> 100 \<and>
      minSupport sh \<le> support sh \<and> support sh \<le> maxSupport sh)"

definition metricsInRange :: "'a GameState_scheme \<Rightarrow> bool" where
  "metricsInRange s =
     (list_all stakeholderInRange (stakeholders s) \<and>
      0 \<le> reputation s \<and> reputation s \<le> 100 \<and>
      0 \<le> projectProgress s \<and> projectProgress s \<le> 100)"

text \<open>
  Every snapshot in the history belongs to a day that is over. A session starts with an
  empty history, and the operations that move the day only move it forward.
\<close>

definition historyBeforeToday :: "'a GameState_scheme \<Rightarrow> bool" where
  "historyBeforeToday s = (\<forall>k \<in> dom (history s). k < day s)"

text \<open>
  The contingent rule in the words of the specification. The resolved stakeholder is the
  first stakeholder whose role is the rule's own role if the rule names one, else the
  role of the sequence. A threshold that is not configured holds; a trust or support
  threshold holds when the resolved stakeholder exists and lies below it.
\<close>

definition resolvedStakeholder ::
  "ContingentRules \<Rightarrow> MeetingSequence \<Rightarrow> 'a GameState_scheme \<Rightarrow> Stakeholder option" where
  "resolvedStakeholder rules sq state =
     find (\<lambda>s. role s = (case rule_stakeholderRole rules of
                             Some r \<Rightarrow> r | None \<Rightarrow> stakeholderRole sq))
          (stakeholders state)"

definition thresholdsHold ::
  "ContingentRules \<Rightarrow> MeetingSequence \<Rightarrow> 'a GameState_scheme \<Rightarrow> bool" where
  "thresholdsHold rules sq state =
     ((case budgetBelow rules of None \<Rightarrow> True | Some b \<Rightarrow> budget state < b) \<and>
      (case trustBelow rules of
         None \<Rightarrow> True
       | Some t \<Rightarrow> (case resolvedStakeholder rules sq state of
                      None \<Rightarrow> False | Some sh \<Rightarrow> trust sh < t)) \<and>
      (case supportBelow rules of
         None \<Rightarrow> True
       | Some u \<Rightarrow> (case resolvedStakeholder rules sq state of
                      None \<Rightarrow> False | Some sh \<Rightarrow> support sh < u)))"

text \<open>An uncompleted inevitable sequence scheduled at the current day and slot.\<close>

definition inevitableDue :: "'a GameState_scheme \<Rightarrow> MeetingSequence \<Rightarrow> bool" where
  "inevitableDue gs sq =
     (isInevitable sq \<and> sequence_id sq \<notin> set (completedSequences gs) \<and> scheduledNow gs sq)"

text \<open>An uncompleted contingent sequence whose predicate holds.\<close>

definition contingentDue :: "'a GameState_scheme \<Rightarrow> MeetingSequence \<Rightarrow> bool" where
  "contingentDue gs sq =
     (isContingent sq \<and> sequence_id sq \<notin> set (completedSequences gs) \<and>
      shouldTriggerContingentSequence sq gs)"

section \<open>Example content\<close>

text \<open>A small session on which the properties are exercised.\<close>

definition ex_slots :: "string list" where
  "ex_slots = [''manana'', ''tarde'', ''noche'']"

definition ex_stakeholder :: Stakeholder where
  "ex_stakeholder = \<lparr>sh_id = ''s1'', name = ''Ana'', role = ''Jefe Sector Azul'', trust = 90,
     support = 0, minSupport = - 5, maxSupport = 10, sh_status = normal, lastMetDay = None,
     commitments = [\<lparr>description = ''informe'', dayDue = 5, status = pending\<rparr>,
                    \<lparr>description = ''turnos'', dayDue = 9, status = pending\<rparr>]\<rparr>"

definition ex_state :: GameState where
  "ex_state = \<lparr>playerName = ''Eva'', day = 5, timeSlot = Some ''noche'', budget = 100,
     reputation = 50, projectProgress = 10, stakeholders = [ex_stakeholder],
     history = Map.empty, eventsLog = [], completedSequences = [], completedScenarios = [],
     scenarioSchedule = Map.empty, criticalWarnings = [], decisionLog = [], processLog = [],
     inbox = []\<rparr>"

definition ex_option :: ScenarioOption where
  "ex_option = \<lparr>option_id = ''opt_a'', text_of = ''Prometer el informe'',
     consequences = \<lparr>trustChange = Some 30, supportChange = Some 20,
       budgetChange = Some (- 150), reputationChange = Some 80,
       projectProgressChange = Some (- 20), dialogueResponse = ''Gracias, {playerName}.''\<rparr>\<rparr>"

definition ex_node :: ScenarioNode where
  "ex_node = \<lparr>node_id = ''N1'', node_stakeholderRole = ''Jefe Sector Azul'',
     dialogue = ''Hola {playerName}'', options = [ex_option]\<rparr>"

definition ex_sequence :: MeetingSequence where
  "ex_sequence = \<lparr>sequence_id = ''SEQ_1'', stakeholderRole = ''Jefe Sector Azul'',
     nodes = [''N1'', ''N2''], initialDialogue = ''Buenos dias'', finalDialogue = ''Adios'',
     isInevitable = False, isContingent = False, contingentRules = None\<rparr>"

definition ex_content :: Content where
  "ex_content = \<lparr>TIME_SLOTS = ex_slots, SECRETARY_ROLE = ''Secretaria'', minProgress = 80,
     requiredStakeholdersRoles = [''Jefe Sector Azul''], minTrustWithRequired = 30,
     maxDeadline = 30, sequences = [ex_sequence], scenarios = [ex_node]\<rparr>"

definition ex_app :: "unit AppState" where
  "ex_app = \<lparr>appStep = game, gameState = ex_state, characterInFocus = Some ex_stakeholder,
     currentDialogue = '''', playerActions = [], isLoading = False,
     activeTab = ''interaction'', countdown = 1, isTimerPaused = False,
     gameStatus = playing, endGameMessage = '''',
     currentMeeting = Some \<lparr>sequence = ex_sequence, nodeIndex = 0\<rparr>,
     warningPopupMessage = None\<rparr>"

definition ex_choose :: PlayerAction where
  "ex_choose = \<lparr>label = ''Prometer el informe'', cost = ''Decision'', action = ''opt_a''\<rparr>"

definition ex_conclude :: PlayerAction where
  "ex_conclude = \<lparr>label = ''Concluir'', cost = ''Finalizar'', action = ''conclude_meeting''\<rparr>"

definition ex_continue :: PlayerAction where
  "ex_continue = \<lparr>label = ''Continuar...'', cost = ''Continuar'',
     action = ''continue_meeting_sequence''\<rparr>"

definition ex_secretary :: Stakeholder where
  "ex_secretary = \<lparr>sh_id = ''s2'', name = ''Luz'', role = ''Secretaria'', trust = 50,
     support = 0, minSupport = 0, maxSupport = 10, sh_status = normal, lastMetDay = None,
     commitments = []\<rparr>"

definition ex_distrustful :: Stakeholder where
  "ex_distrustful = \<lparr>sh_id = ''s3'', name = ''Raul'', role = ''Jefa Sector Rojo'', trust = 10,
     support = 0, minSupport = 0, maxSupport = 10, sh_status = normal, lastMetDay = Some 4,
     commitments = [\<lparr>description = ''insumos'', dayDue = 4, status = pending\<rparr>]\<rparr>"

definition ex_state3 :: GameState where
  "ex_state3 = ex_state\<lparr>stakeholders := [ex_stakeholder, ex_secretary, ex_distrustful]\<rparr>"

definition ex_app_finished :: "unit AppState" where
  "ex_app_finished = ex_app\<lparr>gameState := ex_state\<lparr>projectProgress := 90\<rparr>\<rparr>"

text \<open>The same session after the win-condition effect has run.\<close>

definition ex_app_won :: "unit AppState" where
  "ex_app_won = ex_app_finished\<lparr>endGameMessage := winMessage, gameStatus := won\<rparr>"

text \<open>
  Content with one inevitable and one contingent sequence. The inevitable sequence names
  a role that no stakeholder of the session holds; \<open>ex_inevitable_staffed\<close> is the same
  sequence for a role that is present.
\<close>

definition ex_budget_rules :: ContingentRules where
  "ex_budget_rules = \<lparr>budgetBelow = Some 200, trustBelow = None, supportBelow = None,
     rule_stakeholderRole = None\<rparr>"

definition ex_contingent :: MeetingSequence where
  "ex_contingent = \<lparr>sequence_id = ''BUDGET_ALARM'', stakeholderRole = ''Jefe Sector Azul'',
     nodes = [''N1''], initialDialogue = ''Tenemos un problema'', finalDialogue = ''Adios'',
     isInevitable = False, isContingent = True, contingentRules = Some ex_budget_rules\<rparr>"

definition ex_contingent_orphan :: MeetingSequence where
  "ex_contingent_orphan = ex_contingent\<lparr>stakeholderRole := ''Auditor''\<rparr>"

definition ex_inevitable :: MeetingSequence where
  "ex_inevitable = \<lparr>sequence_id = ''EVENT_STORM'', stakeholderRole = ''Auditor'',
     nodes = [''N1''], initialDialogue = ''Llego la tormenta'', finalDialogue = ''Adios'',
     isInevitable = True, isContingent = False, contingentRules = None\<rparr>"

definition ex_inevitable_staffed :: MeetingSequence where
  "ex_inevitable_staffed = ex_inevitable\<lparr>stakeholderRole := ''Jefe Sector Azul''\<rparr>"

definition ex_scheduled_state :: GameState where
  "ex_scheduled_state = ex_state\<lparr>scenarioSchedule :=
     [''EVENT_STORM'' \<mapsto> \<lparr>sched_day = 5, sched_slot = ''noche''\<rparr>]\<rparr>"

definition ex_app_free :: "unit AppState" where
  "ex_app_free = ex_app\<lparr>gameState := ex_scheduled_state, characterInFocus := None,
     currentMeeting := None\<rparr>"

definition ex_content_orphan :: Content where
  "ex_content_orphan = ex_content\<lparr>sequences := [ex_inevitable, ex_contingent]\<rparr>"

definition ex_content_staffed :: Content where
  "ex_content_staffed = ex_content\<lparr>sequences := [ex_contingent, ex_inevitable_staffed]\<rparr>"

text \<open>A meeting over a sequence whose id is the empty string, and a meeting on its last node.\<close>

definition ex_unnamed_sequence :: MeetingSequence where
  "ex_unnamed_sequence = ex_sequence\<lparr>sequence_id := []\<rparr>"

definition ex_app_unnamed :: "unit AppState" where
  "ex_app_unnamed = ex_app\<lparr>currentMeeting :=
     Some \<lparr>sequence = ex_unnamed_sequence, nodeIndex = 1\<rparr>\<rparr>"

definition ex_app_last :: "unit AppState" where
  "ex_app_last = ex_app\<lparr>currentMeeting := Some \<lparr>sequence = ex_sequence, nodeIndex = 1\<rparr>\<rparr>"

section \<open>Day rollover: commitments and trust\<close>

lemma brokenCount_updateCommitments:
  "brokenCount (updateCommitments d cs) - brokenCount cs
     = int (length (filter (\<lambda>c. status c = pending \<and> dayDue c < d) cs))"
  by (induction cs) (auto simp: brokenCount_def updateCommitments_def)

lemma newlyBroken_updateCommitments:
  "newlyBroken cs (updateCommitments d cs)
     = int (length (filter (\<lambda>c. status c = pending \<and> dayDue c < d) cs))"
  by (induction cs) (auto simp: newlyBroken_def updateCommitments_def)

lemma indexOf_bounds: "- 1 \<le> indexOf xs x \<and> indexOf xs x < int (length xs)"
  by (induction xs) (auto simp: Let_def)

lemma advanceTime_day:
  "day (advanceTime slots s) = (if dayBoundary slots s then day s + 1 else day s)"
  by (simp add: advanceTime_def dayBoundary_def Let_def)

lemma advanceTime_stakeholders:
  "stakeholders (advanceTime slots s) =
     (if dayBoundary slots s then map (rolloverStakeholder (day s + 1)) (stakeholders s)
      else stakeholders s)"
  by (simp add: advanceTime_def dayBoundary_def Let_def)




lemma indexOf_member: "x \<in> set xs \<Longrightarrow> 0 \<le> indexOf xs x"
  by (induction xs) (auto simp: Let_def)

lemma indexOf_last:
  "distinct xs \<Longrightarrow> x \<in> set xs \<Longrightarrow> (indexOf xs x + 1 \<ge> int (length xs)) = (x = last xs)"
proof (induction xs)
  case Nil
  then show ?case by simp
next
  case (Cons y ys)
  show ?case
  proof (cases "y = x")
    case True
    with Cons.prems show ?thesis by (cases ys) auto
  next
    case False
    with Cons.prems have m: "x \<in> set ys" and d: "distinct ys"
      by auto
    from m have "ys \<noteq> []" by auto
    with False m d Cons.IH indexOf_member [OF m] show ?thesis
      by (auto simp: Let_def)
  qed
qed

text \<open>
  With a slot table without repetitions, the clock stands on a day boundary exactly when
  the current slot is the last of the table.
\<close>

lemma dayBoundary_last_slot:
  "distinct slots \<Longrightarrow> timeSlot s = Some t \<Longrightarrow> t \<in> set slots \<Longrightarrow>
   dayBoundary slots s = (t = last slots)"
  by (simp add: dayBoundary_def slotIndex_def indexOf_last)

lemma advanceTime_innovatec_day:
  "day (advanceTime_innovatec cfg s) =
     (if dayBoundary (TIME_SLOTS cfg) s then day s + 1 else day s)"
  by (simp add: advanceTime_innovatec_def dayBoundary_def Let_def)

lemma advanceTime_innovatec_stakeholders:
  "stakeholders (advanceTime_innovatec cfg s) =
     (if dayBoundary (TIME_SLOTS cfg) s
      then map (rolloverStakeholder_innovatec (SECRETARY_ROLE cfg) (day s) (day s + 1))
             (stakeholders s)
      else stakeholders s)"
  by (simp add: advanceTime_innovatec_def dayBoundary_def Let_def)

lemma rolloverStakeholder_innovatec_commitments:
  "commitments (rolloverStakeholder_innovatec r c d sh) = updateCommitments d (commitments sh)"
  by (simp add: rolloverStakeholder_innovatec_def Let_def)

lemma rolloverStakeholder_innovatec_trust:
  "trust (rolloverStakeholder_innovatec r c d sh) =
     max 0 (trust sh
            - 20 * newlyBroken (commitments sh)
                     (commitments (rolloverStakeholder_innovatec r c d sh))
            - (if role sh \<noteq> r \<and> (case lastMetDay sh of None \<Rightarrow> 0 | Some m \<Rightarrow> m) < c - 3
               then 2 else 0))"
proof -
  have "brokenCount (updateCommitments d (commitments sh)) - brokenCount (commitments sh)
          = newlyBroken (commitments sh) (updateCommitments d (commitments sh))"
    by (simp only: brokenCount_updateCommitments newlyBroken_updateCommitments)
  then show ?thesis
    by (simp add: rolloverStakeholder_innovatec_def Let_def mult.commute)
qed




section \<open>Numeric ranges are kept\<close>

lemma newlyBroken_nonneg: "0 \<le> brokenCount (updateCommitments d cs) - brokenCount cs"
  by (simp only: brokenCount_updateCommitments)

lemma inRange_rolloverStakeholder:
  "stakeholderInRange sh \<Longrightarrow> stakeholderInRange (rolloverStakeholder d sh)"
  using newlyBroken_nonneg [of d "commitments sh"]
  by (simp add: stakeholderInRange_def rolloverStakeholder_def Let_def)

lemma inRange_rolloverStakeholder_innovatec:
  "stakeholderInRange sh \<Longrightarrow> stakeholderInRange (rolloverStakeholder_innovatec r c d sh)"
  using newlyBroken_nonneg [of d "commitments sh"]
  by (simp add: stakeholderInRange_def rolloverStakeholder_innovatec_def Let_def)

lemma inRange_clamped:
  "stakeholderInRange sh \<Longrightarrow>
   stakeholderInRange (sh\<lparr>trust := max 0 (min 100 (trust sh + a)),
                          support := max (minSupport sh) (min (maxSupport sh) (support sh + b))\<rparr>)"
  by (simp add: stakeholderInRange_def)

lemma metricsInRange_advanceTime:
  "metricsInRange s \<Longrightarrow> metricsInRange (advanceTime slots s)"
  by (simp add: metricsInRange_def advanceTime_def Let_def list_all_iff
        inRange_rolloverStakeholder)

lemma metricsInRange_advanceTime_innovatec:
  "metricsInRange s \<Longrightarrow> metricsInRange (advanceTime_innovatec cfg s)"
  by (simp add: metricsInRange_def advanceTime_innovatec_def Let_def list_all_iff
        inRange_rolloverStakeholder_innovatec)

lemma metricsInRange_applyConsequences:
  "metricsInRange s \<Longrightarrow> metricsInRange (applyConsequences ch scenario opt act pl s)"
  by (auto simp: metricsInRange_def applyConsequences_def Let_def list_all_iff
        intro!: inRange_clamped)

lemma metricsInRange_applyConsequences_innovatec:
  "metricsInRange s \<Longrightarrow>
   metricsInRange (applyConsequences_innovatec ch scenario opt act pl gs s)"
  by (auto simp: metricsInRange_def applyConsequences_innovatec_def Let_def list_all_iff
        intro!: inRange_clamped)

lemma metricsInRange_stateAfterMeetingEnd:
  "metricsInRange s \<Longrightarrow> metricsInRange (stateAfterMeetingEnd cfg sid focus s)"
  by (auto simp: metricsInRange_def stateAfterMeetingEnd_def Let_def list_all_iff
        stakeholderInRange_def split: option.splits)

lemma metricsInRange_advanceTimeAndUpdateFocus:
  "metricsInRange (gameState st) \<Longrightarrow>
   metricsInRange (gameState (advanceTimeAndUpdateFocus cfg sid st))"
  by (simp add: advanceTimeAndUpdateFocus_def Let_def metricsInRange_advanceTime
        metricsInRange_stateAfterMeetingEnd)

lemma gameState_presentScenario: "gameState (presentScenario sc st) = gameState st"
  by (simp add: presentScenario_def Let_def split: option.splits)

lemma metricsInRange_selectOption:
  "metricsInRange (gameState st) \<Longrightarrow>
   metricsInRange (gameState (selectOption cfg pl act ch st))"
  by (simp add: selectOption_def Let_def metricsInRange_applyConsequences
        split: option.splits)

lemma metricsInRange_handlePlayerAction:
  "metricsInRange (gameState st) \<Longrightarrow>
   metricsInRange (gameState (handlePlayerAction cfg pl act st))"
  by (simp add: handlePlayerAction_def handleSetupScheduleWar_def Let_def
        metricsInRange_selectOption metricsInRange_advanceTimeAndUpdateFocus
        gameState_presentScenario split: option.splits)

lemma metricsInRange_timerTick:
  "metricsInRange (gameState st) \<Longrightarrow> metricsInRange (gameState (timerTick cfg st))"
  by (simp add: timerTick_def metricsInRange_advanceTimeAndUpdateFocus)

lemma warnStep_inRange:
  "list_all stakeholderInRange (fst (snd acc)) \<Longrightarrow>
   list_all stakeholderInRange (fst (snd (warnStep cfg ws s acc)))"
  by (cases acc) (auto simp: warnStep_def list_all_iff stakeholderInRange_def)

lemma fold_warnStep_inRange:
  "list_all stakeholderInRange (fst (snd acc)) \<Longrightarrow>
   list_all stakeholderInRange (fst (snd (fold (warnStep cfg ws) xs acc)))"
  by (induction xs arbitrary: acc) (simp_all add: warnStep_inRange)

lemma metricsInRange_winConditionEffect:
  "metricsInRange (gameState st) \<Longrightarrow>
   metricsInRange (gameState (winConditionEffect cfg st))"
  using fold_warnStep_inRange [of "([], stakeholders (gameState st), False)" cfg
          "criticalWarnings (gameState st)"]
  by (simp add: winConditionEffect_def Let_def metricsInRange_def)

lemma gameState_startSequence:
  "gameState (startSequence sq sh p l c st) = gameState st"
  by (simp add: startSequence_def Let_def)

lemma gameState_schedulerEffect: "gameState (schedulerEffect cfg st) = gameState st"
  by (simp add: schedulerEffect_def Let_def gameState_startSequence split: option.splits)

lemma metricsInRange_handleExecuteWeek:
  "metricsInRange (gameState st) \<Longrightarrow> metricsInRange (gameState (handleExecuteWeek st))"
  by (simp add: handleExecuteWeek_def Let_def metricsInRange_def)

lemma metricsInRange_newStateAfterMeeting_innovatec:
  assumes "metricsInRange gs"
  shows "metricsInRange (newStateAfterMeeting_innovatec cfg templates rnd sid focus gs)"
proof -
  have "metricsInRange s \<Longrightarrow>
        metricsInRange (s\<lparr>stakeholders :=
          map (\<lambda>sh. if name sh = n then sh\<lparr>lastMetDay := d\<rparr> else sh) (stakeholders s)\<rparr>)"
    for s :: "'a GameState_scheme" and n d
    by (auto simp: metricsInRange_def list_all_iff stakeholderInRange_def)
  then show ?thesis
    using assms
    by (auto simp: newStateAfterMeeting_innovatec_def Let_def
          intro!: metricsInRange_advanceTime_innovatec
          split: option.splits)
       (simp_all add: metricsInRange_def)
qed

text \<open>
  Claim C1. From a state whose metrics are in range, every state-changing operation
  leads to a state whose metrics are in range: trust, reputation and project progress
  stay within \<open>[0, 100]\<close> and each stakeholder's support stays within that stakeholder's
  own bounds. This holds for the consequence application of an option (both variants),
  the day rollover (both variants), every player action including
  \<^verbatim>\<open>conclude_meeting\<close> (both variants), the timer, manual advance,
  \<^verbatim>\<open>execute_week\<close> and the two effects. The budget after a consequence application is the old budget plus the delta,
  with no clamp, and the rollover leaves it alone; it can go below zero.
\<close>

theorem metrics_stay_in_range:
  assumes "metricsInRange (gameState st)"
  shows "metricsInRange (applyConsequences ch scenario opt act pl (gameState st)) \<and>
         metricsInRange (applyConsequences_innovatec ch scenario opt act pl gs (gameState st)) \<and>
         metricsInRange (advanceTime slots (gameState st)) \<and>
         metricsInRange (advanceTime_innovatec cfg (gameState st)) \<and>
         metricsInRange (newStateAfterMeeting_innovatec cfg templates rnd sid focus
                           (gameState st)) \<and>
         metricsInRange (gameState (handlePlayerAction cfg pl act st)) \<and>
         metricsInRange (gameState (timerTick cfg st)) \<and>
         metricsInRange (gameState (handleManualAdvance cfg st)) \<and>
         metricsInRange (gameState (handleExecuteWeek st)) \<and>
         metricsInRange (gameState (winConditionEffect cfg st)) \<and>
         metricsInRange (gameState (schedulerEffect cfg st)) \<and>
         budget (applyConsequences ch scenario opt act pl (gameState st))
           = budget (gameState st) + orZero (budgetChange (consequences opt)) \<and>
         budget (applyConsequences_innovatec ch scenario opt act pl gs (gameState st))
           = budget (gameState st) + orZero (budgetChange (consequences opt)) \<and>
         budget (advanceTime slots (gameState st)) = budget (gameState st) \<and>
         budget (advanceTime_innovatec cfg (gameState st)) = budget (gameState st)"
proof -
  note a = assms
  have "budget (advanceTime slots (gameState st)) = budget (gameState st)"
    by (simp add: advanceTime_def Let_def)
  moreover have "budget (advanceTime_innovatec cfg (gameState st)) = budget (gameState st)"
    by (simp add: advanceTime_innovatec_def Let_def)
  moreover
  have "budget (applyConsequences ch scenario opt act pl (gameState st))
          = budget (gameState st) + orZero (budgetChange (consequences opt))"
    by (simp add: applyConsequences_def Let_def)
  moreover have "budget (applyConsequences_innovatec ch scenario opt act pl gs (gameState st))
          = budget (gameState st) + orZero (budgetChange (consequences opt))"
    by (simp add: applyConsequences_innovatec_def Let_def)
  moreover have "metricsInRange (gameState (handleManualAdvance cfg st))"
    using a by (simp add: handleManualAdvance_def metricsInRange_advanceTimeAndUpdateFocus)
  moreover have "metricsInRange (gameState (schedulerEffect cfg st))"
    using a by (simp add: gameState_schedulerEffect)
  ultimately show ?thesis
    using a metricsInRange_applyConsequences [OF a]
      metricsInRange_applyConsequences_innovatec [OF a]
      metricsInRange_advanceTime [OF a] metricsInRange_advanceTime_innovatec [OF a]
      metricsInRange_newStateAfterMeeting_innovatec [OF a]
      metricsInRange_handlePlayerAction [OF a] metricsInRange_timerTick [OF a]
      metricsInRange_handleExecuteWeek [OF a] metricsInRange_winConditionEffect [OF a]
    by simp
qed

theorem metrics_stay_in_range_witness:
  "metricsInRange (gameState ex_app) \<and>
   metricsInRange (gameState (handlePlayerAction ex_content None ex_choose ex_app)) \<and>
   map trust (stakeholders (gameState (handlePlayerAction ex_content None ex_choose ex_app)))
     = [100] \<and>
   map support (stakeholders (gameState (handlePlayerAction ex_content None ex_choose ex_app)))
     = [10] \<and>
   reputation (gameState (handlePlayerAction ex_content None ex_choose ex_app)) = 100 \<and>
   projectProgress (gameState (handlePlayerAction ex_content None ex_choose ex_app)) = 0 \<and>
   budget (applyConsequences ex_stakeholder ex_node ex_option ex_choose None (gameState ex_app))
     = - 50"
proof -
  have h: "metricsInRange (gameState ex_app)"
    by (simp add: metricsInRange_def stakeholderInRange_def ex_app_def ex_state_def
          ex_stakeholder_def)
  have e: "gameState (handlePlayerAction ex_content None ex_choose ex_app)
             = applyConsequences ex_stakeholder ex_node ex_option ex_choose None ex_state"
    by (simp add: handlePlayerAction_def selectOption_def ex_app_def ex_content_def
          ex_sequence_def ex_node_def ex_option_def ex_choose_def js_nth_def Let_def)
  have v: "applyConsequences ex_stakeholder ex_node ex_option ex_choose None ex_state
            = ex_state\<lparr>budget := - 50, reputation := 100, projectProgress := 0,
                stakeholders := [ex_stakeholder\<lparr>trust := 100, support := 10\<rparr>],
                completedScenarios := [''N1''],
                eventsLog := [''Decisi'' @ o_acute @ ''n: Prometer el informe''],
                decisionLog := [\<lparr>dl_day = 5, dl_timeSlot = Some ''noche'',
                  dl_stakeholder = ''Ana'', nodeId = ''N1'', choiceId = ''opt_a'',
                  choiceText = ''Prometer el informe'',
                  dl_consequences = consequences ex_option\<rparr>]\<rparr>"
    by (simp add: applyConsequences_def ex_state_def ex_stakeholder_def ex_node_def
          ex_option_def ex_choose_def orZero_def Let_def)
  have g: "gameState ex_app = ex_state"
    by (simp add: ex_app_def)
  show ?thesis
    using h metrics_stay_in_range [OF h, where ch = ex_stakeholder and scenario = ex_node
        and opt = ex_option and act = ex_choose and pl = None and cfg = ex_content]
    by (simp add: e v g)
qed

section \<open>History snapshots\<close>

lemma advanceTime_history:
  "history (advanceTime slots s) =
     (if dayBoundary slots s then (history s)(day s \<mapsto> stakeholders s) else history s)"
  by (simp add: advanceTime_def dayBoundary_def Let_def)

lemma advanceTime_innovatec_history:
  "history (advanceTime_innovatec cfg s) =
     (if dayBoundary (TIME_SLOTS cfg) s then (history s)(day s \<mapsto> stakeholders s)
      else history s)"
  by (simp add: advanceTime_innovatec_def dayBoundary_def Let_def)

lemma historyBeforeTodayD: "historyBeforeToday s \<Longrightarrow> history s k = Some y \<Longrightarrow> k < day s"
  unfolding historyBeforeToday_def by (meson domI)

lemma historyBeforeTodayI: "(\<And>k y. history s k = Some y \<Longrightarrow> k < day s) \<Longrightarrow> historyBeforeToday s"
  unfolding historyBeforeToday_def by auto

lemma historyBeforeToday_advanceTime:
  "historyBeforeToday s \<Longrightarrow> historyBeforeToday (advanceTime slots s)"
  by (rule historyBeforeTodayI)
     (auto simp: advanceTime_history advanceTime_day split: if_splits
        dest: historyBeforeTodayD)

lemma historyBeforeToday_advanceTime_innovatec:
  "historyBeforeToday s \<Longrightarrow> historyBeforeToday (advanceTime_innovatec cfg s)"
  by (rule historyBeforeTodayI)
     (auto simp: advanceTime_innovatec_history advanceTime_innovatec_day split: if_splits
        dest: historyBeforeTodayD)

lemma historyBeforeToday_empty: "history s = Map.empty \<Longrightarrow> historyBeforeToday s"
  by (simp add: historyBeforeToday_def)

lemma historyBeforeToday_stateAfterMeetingEnd:
  "historyBeforeToday s \<Longrightarrow> historyBeforeToday (stateAfterMeetingEnd cfg sid focus s)"
  by (simp add: historyBeforeToday_def stateAfterMeetingEnd_def Let_def split: option.splits)

lemma historyBeforeToday_advanceTimeAndUpdateFocus:
  "historyBeforeToday (gameState st) \<Longrightarrow>
   historyBeforeToday (gameState (advanceTimeAndUpdateFocus cfg sid st))"
  by (simp add: advanceTimeAndUpdateFocus_def Let_def historyBeforeToday_advanceTime
        historyBeforeToday_stateAfterMeetingEnd)

lemma historyBeforeToday_applyConsequences:
  "historyBeforeToday s \<Longrightarrow> historyBeforeToday (applyConsequences ch sc opt act pl s)"
  by (simp add: historyBeforeToday_def applyConsequences_def Let_def)

lemma historyBeforeToday_selectOption:
  "historyBeforeToday (gameState st) \<Longrightarrow>
   historyBeforeToday (gameState (selectOption cfg pl act ch st))"
  by (simp add: selectOption_def Let_def historyBeforeToday_applyConsequences
        split: option.splits)

text \<open>
  The operations of the base application keep every snapshot on a day that is over;
  \<^verbatim>\<open>execute_week\<close> moves the day forward and writes nothing.
\<close>

lemma historyBeforeToday_operations:
  assumes "historyBeforeToday (gameState st)"
  shows "historyBeforeToday (gameState (handlePlayerAction cfg pl act st)) \<and>
         historyBeforeToday (gameState (timerTick cfg st)) \<and>
         historyBeforeToday (gameState (handleManualAdvance cfg st)) \<and>
         historyBeforeToday (gameState (handleExecuteWeek st)) \<and>
         historyBeforeToday (gameState (schedulerEffect cfg st)) \<and>
         historyBeforeToday (gameState (winConditionEffect cfg st))"
proof -
  have "historyBeforeToday (gameState (handlePlayerAction cfg pl act st))"
    using assms
    by (simp add: handlePlayerAction_def handleSetupScheduleWar_def Let_def
          historyBeforeToday_selectOption historyBeforeToday_advanceTimeAndUpdateFocus
          gameState_presentScenario split: option.splits)
  moreover have "historyBeforeToday (gameState (timerTick cfg st))"
    using assms by (simp add: timerTick_def historyBeforeToday_advanceTimeAndUpdateFocus)
  moreover have "historyBeforeToday (gameState (handleManualAdvance cfg st))"
    using assms
    by (simp add: handleManualAdvance_def historyBeforeToday_advanceTimeAndUpdateFocus)
  moreover have "historyBeforeToday (gameState (handleExecuteWeek st))"
    using assms
    by (intro historyBeforeTodayI)
       (auto simp: handleExecuteWeek_def Let_def dest: historyBeforeTodayD)
  moreover have "historyBeforeToday (gameState (schedulerEffect cfg st))"
    using assms by (simp add: gameState_schedulerEffect)
  moreover have "historyBeforeToday (gameState (winConditionEffect cfg st))"
    using assms by (simp add: winConditionEffect_def Let_def historyBeforeToday_def)
  ultimately show ?thesis by simp
qed

text \<open>
  Claim C7. In a state whose snapshots all belong to days that are over, an
  \<^verbatim>\<open>advanceTime\<close> across a day boundary adds exactly one history entry, under a key
  that was free; its value is the stakeholder list as it was before the call (before
  any commitment was broken or any trust penalty applied); every entry written earlier
  is still there with its old value; and the new state again has all its snapshots on
  days that are over. An \<^verbatim>\<open>advanceTime\<close> that stays within the day leaves the history
  as it is. Both variants of \<^verbatim>\<open>advanceTime\<close> behave this way.
\<close>

theorem advanceTime_history_snapshot:
  fixes s :: "'a GameState_scheme"
  assumes "historyBeforeToday s"
  shows "(dayBoundary slots s \<longrightarrow>
            day s \<notin> dom (history s) \<and>
            dom (history (advanceTime slots s)) = insert (day s) (dom (history s)) \<and>
            history (advanceTime slots s) (day s) = Some (stakeholders s) \<and>
            (\<forall>k \<in> dom (history s). history (advanceTime slots s) k = history s k)) \<and>
         (\<not> dayBoundary slots s \<longrightarrow> history (advanceTime slots s) = history s) \<and>
         historyBeforeToday (advanceTime slots s) \<and>
         (dayBoundary (TIME_SLOTS cfg) s \<longrightarrow>
            day s \<notin> dom (history s) \<and>
            dom (history (advanceTime_innovatec cfg s)) = insert (day s) (dom (history s)) \<and>
            history (advanceTime_innovatec cfg s) (day s) = Some (stakeholders s) \<and>
            (\<forall>k \<in> dom (history s). history (advanceTime_innovatec cfg s) k = history s k)) \<and>
         (\<not> dayBoundary (TIME_SLOTS cfg) s \<longrightarrow>
            history (advanceTime_innovatec cfg s) = history s) \<and>
         historyBeforeToday (advanceTime_innovatec cfg s)"
proof -
  have free: "day s \<notin> dom (history s)"
    using assms by (auto simp: historyBeforeToday_def)
  then have old: "\<forall>k \<in> dom (history s). k \<noteq> day s"
    by auto
  show ?thesis
    using free old historyBeforeToday_advanceTime [OF assms]
      historyBeforeToday_advanceTime_innovatec [OF assms]
    by (simp add: advanceTime_history advanceTime_innovatec_history)
qed

theorem advanceTime_history_snapshot_witness:
  "historyBeforeToday ex_state \<and> dayBoundary ex_slots ex_state \<and>
   history (advanceTime ex_slots ex_state) 5 = Some [ex_stakeholder] \<and>
   dom (history (advanceTime ex_slots ex_state)) = {5} \<and>
   map trust (stakeholders (advanceTime ex_slots ex_state)) = [70] \<and>
   trust ex_stakeholder = 90 \<and>
   history (advanceTime ex_slots (ex_state\<lparr>timeSlot := Some ''manana''\<rparr>)) = Map.empty"
proof -
  have h: "historyBeforeToday ex_state"
    by (simp add: historyBeforeToday_def ex_state_def)
  have h': "historyBeforeToday (ex_state\<lparr>timeSlot := Some ''manana''\<rparr>)"
    by (simp add: historyBeforeToday_def ex_state_def)
  have b: "dayBoundary ex_slots ex_state"
    by (simp add: dayBoundary_def slotIndex_def ex_slots_def ex_state_def)
  have b': "\<not> dayBoundary ex_slots (ex_state\<lparr>timeSlot := Some ''manana''\<rparr>)"
    by (simp add: dayBoundary_def slotIndex_def ex_slots_def ex_state_def)
  have t: "map trust (stakeholders (advanceTime ex_slots ex_state)) = [70]"
    using b
    by (simp add: advanceTime_stakeholders rolloverStakeholder_def updateCommitments_def
          brokenCount_def Let_def ex_state_def ex_stakeholder_def)
  show ?thesis
    using h b b' t advanceTime_history_snapshot [OF h, of ex_slots]
      advanceTime_history_snapshot [OF h', of ex_slots]
    by (simp add: ex_state_def ex_stakeholder_def)
qed

section \<open>The neglect penalty of the Innovatec rollover\<close>

text \<open>
  Claim C9. On a day boundary the Innovatec rollover sets every stakeholder's trust to
  the old trust, minus 20 for each commitment newly broken, minus a flat 2 when the
  stakeholder is not the secretary and was last met more than 3 days before the day that
  ends (a stakeholder never met counts as met on day 0), floored at 0. With one newly
  broken commitment and neglect the deduction is 22. The secretary pays no neglect penalty.
\<close>

theorem innovatec_neglect_penalty:
  fixes s :: "'a GameState_scheme"
  shows
  "dayBoundary (TIME_SLOTS cfg) s \<longrightarrow>
     length (stakeholders (advanceTime_innovatec cfg s)) = length (stakeholders s) \<and>
     (\<forall>i < length (stakeholders s).
        let sh = stakeholders s ! i;
            sh' = stakeholders (advanceTime_innovatec cfg s) ! i;
            n = newlyBroken (commitments sh) (commitments sh');
            neglect = (role sh \<noteq> SECRETARY_ROLE cfg \<and>
                       (case lastMetDay sh of None \<Rightarrow> 0 | Some m \<Rightarrow> m) < day s - 3)
        in trust sh' = max 0 (trust sh - 20 * n - (if neglect then 2 else 0)) \<and>
           (n = 1 \<and> neglect \<longrightarrow> trust sh' = max 0 (trust sh - 22)) \<and>
           (role sh = SECRETARY_ROLE cfg \<longrightarrow> trust sh' = max 0 (trust sh - 20 * n)) \<and>
           commitments sh' =
             map (\<lambda>c. if status c = pending \<and> dayDue c < day s + 1
                       then c\<lparr>status := broken\<rparr> else c) (commitments sh))"
  by (simp add: advanceTime_innovatec_stakeholders Let_def
        rolloverStakeholder_innovatec_trust rolloverStakeholder_innovatec_commitments
        updateCommitments_def)

theorem innovatec_neglect_penalty_witness:
  "dayBoundary (TIME_SLOTS ex_content) ex_state3 \<and>
   map trust (stakeholders ex_state3) = [90, 50, 10] \<and>
   map trust (stakeholders (advanceTime_innovatec ex_content ex_state3)) = [68, 50, 0] \<and>
   map (map status \<circ> commitments) (stakeholders (advanceTime_innovatec ex_content ex_state3))
     = [[broken, pending], [], [broken]]"
proof -
  have b: "dayBoundary (TIME_SLOTS ex_content) ex_state3"
    by (simp add: dayBoundary_def slotIndex_def ex_content_def ex_slots_def ex_state3_def
          ex_state_def)
  have d: "day ex_state3 = 5"
    by (simp add: ex_state3_def ex_state_def)
  have s: "stakeholders ex_state3 = [ex_stakeholder, ex_secretary, ex_distrustful]"
    by (simp add: ex_state3_def)
  have r: "SECRETARY_ROLE ex_content = ''Secretaria''"
    by (simp add: ex_content_def)
  have t: "stakeholders (advanceTime_innovatec ex_content ex_state3)
             = [ex_stakeholder\<lparr>commitments :=
                    [\<lparr>description = ''informe'', dayDue = 5, status = broken\<rparr>,
                     \<lparr>description = ''turnos'', dayDue = 9, status = pending\<rparr>], trust := 68\<rparr>,
                ex_secretary,
                ex_distrustful\<lparr>commitments :=
                    [\<lparr>description = ''insumos'', dayDue = 4, status = broken\<rparr>], trust := 0\<rparr>]"
    using b
    by (simp add: advanceTime_innovatec_stakeholders d s r rolloverStakeholder_innovatec_def
          updateCommitments_def brokenCount_def Let_def ex_stakeholder_def ex_secretary_def
          ex_distrustful_def)
  show ?thesis
    using b innovatec_neglect_penalty [of ex_content ex_state3]
    by (simp add: t s) (simp add: ex_stakeholder_def ex_secretary_def ex_distrustful_def)
qed

section \<open>Executing a week\<close>

text \<open>
  Claim C10. \<^verbatim>\<open>execute_week\<close> adds 5 to the day and appends one line to the events
  log; the game state is otherwise the one before. In particular the time slot, the
  stakeholders with their commitments and trust, and the history are untouched.
\<close>

theorem execute_week_frame:
  "gameState (handleExecuteWeek st) =
     (gameState st)\<lparr>day := day (gameState st) + 5,
                    eventsLog := eventsLog (gameState st) @
                      [''Semana Ejecutada. Avanzado al d'' @ i_acute @ ''a '' @
                       string_of_int (day (gameState st) + 5) @ ''.'']\<rparr> \<and>
   day (gameState (handleExecuteWeek st)) = day (gameState st) + 5 \<and>
   length (eventsLog (gameState (handleExecuteWeek st)))
     = length (eventsLog (gameState st)) + 1 \<and>
   butlast (eventsLog (gameState (handleExecuteWeek st))) = eventsLog (gameState st) \<and>
   timeSlot (gameState (handleExecuteWeek st)) = timeSlot (gameState st) \<and>
   stakeholders (gameState (handleExecuteWeek st)) = stakeholders (gameState st) \<and>
   history (gameState (handleExecuteWeek st)) = history (gameState st)"
  by (simp add: handleExecuteWeek_def Let_def)

text \<open>
  On the example session: the week ends on day 10 with the promise due on day 5 still
  pending and trust at 90, where a single \<^verbatim>\<open>advanceTime\<close> out of day 5 breaks it.
\<close>

lemma execute_week_breaks_nothing_example:
  "day (gameState (handleExecuteWeek ex_app)) = 10 \<and>
   stakeholders (gameState (handleExecuteWeek ex_app)) = [ex_stakeholder] \<and>
   history (gameState (handleExecuteWeek ex_app)) = Map.empty \<and>
   eventsLog (gameState (handleExecuteWeek ex_app))
     = [''Semana Ejecutada. Avanzado al d'' @ i_acute @ ''a 10.'']"
  by (simp add: handleExecuteWeek_def Let_def ex_app_def ex_state_def string_of_int_def
        string_of_nat.simps digits_def)

section \<open>Winning and the clock\<close>

text \<open>
  The win-condition effect turns the status to won as soon as project progress has
  reached the authored threshold, and leaves the game state as it is.
\<close>

lemma winConditionEffect_won:
  "gameStatus st = playing \<Longrightarrow> appStep st = game \<Longrightarrow>
   minProgress cfg \<le> projectProgress (gameState st) \<Longrightarrow>
   gameStatus (winConditionEffect cfg st) = won \<and>
   gameState (winConditionEffect cfg st) = gameState st"
  by (simp add: winConditionEffect_def Let_def)

text \<open>
  The timer, the two effects and the player-action handler test the status first and do
  nothing once it is not playing.
\<close>

lemma not_playing_timerTick: "gameStatus st \<noteq> playing \<Longrightarrow> timerTick cfg st = st"
  by (simp add: timerTick_def)

lemma not_playing_handlePlayerAction:
  "gameStatus st \<noteq> playing \<Longrightarrow> handlePlayerAction cfg pl act st = st"
  by (simp add: handlePlayerAction_def)

lemma not_playing_winConditionEffect:
  "gameStatus st \<noteq> playing \<Longrightarrow> winConditionEffect cfg st = st"
  by (simp add: winConditionEffect_def)

lemma not_playing_schedulerEffect:
  "gameStatus st \<noteq> playing \<Longrightarrow> schedulerEffect cfg st = st"
  by (simp add: schedulerEffect_def)

text \<open>
  On the example session, with progress 90 against a threshold of 80, the win-condition
  effect ends the game on day 5, and the timer stands still from then on.
\<close>

lemma ex_app_won_reached:
  "winConditionEffect ex_content ex_app_finished = ex_app_won \<and>
   timerTick ex_content ex_app_won = ex_app_won"
  by (simp add: winConditionEffect_def timerTick_def Let_def ex_app_won_def
        ex_app_finished_def ex_app_def ex_content_def)

text \<open>
  Claim C8 asks that no clock advancement and no rollover processing (commitment
  breakage, trust penalties) occur once the status is not playing. The base application
  does not meet it: its manual advance calls \<^verbatim>\<open>advanceTimeAndUpdateFocus\<close> without
  testing the status, where the handler of the same name in \<^verbatim>\<open>InnovatecGame\<close> returns
  at once unless the status is playing. On the example session, won on day 5 with trust
  at 90 and a promise due that day, a manual advance moves the clock into day 6, breaks
  the promise and takes trust to 70, and the status is still won.
\<close>

theorem manual_advance_after_won:
  "gameStatus ex_app_won = won \<and>
   day (gameState ex_app_won) = 5 \<and>
   map trust (stakeholders (gameState ex_app_won)) = [90] \<and>
   map (map status \<circ> commitments) (stakeholders (gameState ex_app_won))
     = [[pending, pending]] \<and>
   gameStatus (handleManualAdvance ex_content ex_app_won) = won \<and>
   day (gameState (handleManualAdvance ex_content ex_app_won)) = 6 \<and>
   map trust (stakeholders (gameState (handleManualAdvance ex_content ex_app_won))) = [70] \<and>
   map (map status \<circ> commitments)
     (stakeholders (gameState (handleManualAdvance ex_content ex_app_won)))
     = [[broken, pending]]"
  by (simp add: handleManualAdvance_def advanceTimeAndUpdateFocus_def advanceTime_day
        advanceTime_stakeholders dayBoundary_def stateAfterMeetingEnd_def slotIndex_def
        rolloverStakeholder_def updateCommitments_def brokenCount_def Let_def
        ex_app_won_def ex_app_finished_def ex_app_def ex_content_def ex_slots_def
        ex_state_def ex_stakeholder_def)

section \<open>The contingent trigger\<close>

text \<open>
  Claim C4 as stated does not hold: a rule that configures only a budget threshold never
  looks a stakeholder up, so it triggers although the resolved stakeholder is missing.
\<close>

theorem contingent_missing_stakeholder_counterexample:
  "isContingent ex_contingent_orphan \<and>
   contingentRules ex_contingent_orphan = Some ex_budget_rules \<and>
   resolvedStakeholder ex_budget_rules ex_contingent_orphan ex_state = None \<and>
   shouldTriggerContingentSequence ex_contingent_orphan ex_state"
  by (simp add: shouldTriggerContingentSequence_def resolvedStakeholder_def
        ex_contingent_orphan_def ex_contingent_def ex_budget_rules_def ex_state_def
        ex_stakeholder_def)

text \<open>
  Claim C4, amended. The predicate is true exactly when the sequence is contingent, has
  rules, and all configured thresholds hold together: budget below \<open>budgetBelow\<close>, the
  resolved stakeholder's trust below \<open>trustBelow\<close>, the resolved stakeholder's support
  below \<open>supportBelow\<close>. When a trust or support threshold is configured and the
  resolved stakeholder does not exist, the predicate is false. It is a total function:
  no input raises an error.
\<close>

theorem contingent_predicate:
  "shouldTriggerContingentSequence sq state =
     (isContingent sq \<and>
      (case contingentRules sq of
         None \<Rightarrow> False
       | Some rules \<Rightarrow> thresholdsHold rules sq state)) \<and>
   (\<forall>rules. contingentRules sq = Some rules \<and>
             (trustBelow rules \<noteq> None \<or> supportBelow rules \<noteq> None) \<and>
             resolvedStakeholder rules sq state = None
             \<longrightarrow> \<not> shouldTriggerContingentSequence sq state)"
  by (auto simp: shouldTriggerContingentSequence_def thresholdsHold_def
        resolvedStakeholder_def Let_def split: option.splits)

theorem contingent_predicate_witness:
  "isContingent ex_contingent \<and>
   contingentRules ex_contingent = Some ex_budget_rules \<and>
   thresholdsHold ex_budget_rules ex_contingent ex_state \<and>
   shouldTriggerContingentSequence ex_contingent ex_state \<and>
   \<not> shouldTriggerContingentSequence ex_contingent (ex_state\<lparr>budget := 200\<rparr>) \<and>
   resolvedStakeholder (ex_budget_rules\<lparr>trustBelow := Some 95\<rparr>) ex_contingent_orphan ex_state
     = None \<and>
   \<not> shouldTriggerContingentSequence
       (ex_contingent_orphan\<lparr>contingentRules := Some (ex_budget_rules\<lparr>trustBelow := Some 95\<rparr>)\<rparr>)
       ex_state \<and>
   shouldTriggerContingentSequence
       (ex_contingent\<lparr>contingentRules := Some (ex_budget_rules\<lparr>trustBelow := Some 95\<rparr>)\<rparr>)
       ex_state"
  using contingent_predicate [of ex_contingent ex_state]
    contingent_predicate [of ex_contingent "ex_state\<lparr>budget := 200\<rparr>"]
    contingent_predicate [of
      "ex_contingent_orphan\<lparr>contingentRules := Some (ex_budget_rules\<lparr>trustBelow := Some 95\<rparr>)\<rparr>"
      ex_state]
    contingent_predicate [of
      "ex_contingent\<lparr>contingentRules := Some (ex_budget_rules\<lparr>trustBelow := Some 95\<rparr>)\<rparr>"
      ex_state]
  by (simp add: thresholdsHold_def resolvedStakeholder_def ex_contingent_orphan_def
        ex_contingent_def ex_budget_rules_def ex_state_def ex_stakeholder_def)

section \<open>Scheduler priority\<close>

lemma inevitableSeq_Some:
  "inevitableSeq cfg gs = Some sq \<Longrightarrow> sq \<in> set (sequences cfg) \<and> inevitableDue gs sq"
  by (auto simp: inevitableSeq_def inevitableDue_def find_Some_iff)

lemma inevitableSeq_first:
  "inevitableSeq cfg gs = Some sq \<Longrightarrow>
   \<exists>i < length (sequences cfg). sequences cfg ! i = sq \<and>
      (\<forall>j < i. \<not> inevitableDue gs (sequences cfg ! j))"
  by (auto simp: inevitableSeq_def inevitableDue_def find_Some_iff)

lemma inevitableSeq_None:
  "(inevitableSeq cfg gs = None) = (\<forall>sq \<in> set (sequences cfg). \<not> inevitableDue gs sq)"
  by (auto simp: inevitableSeq_def inevitableDue_def find_None_iff)

lemma contingentSeq_Some:
  "contingentSeq cfg gs = Some sq \<Longrightarrow> sq \<in> set (sequences cfg) \<and> contingentDue gs sq"
  by (auto simp: contingentSeq_def contingentDue_def find_Some_iff)

lemma startSequence_cells:
  "currentMeeting (startSequence sq sh p l c st) = Some \<lparr>sequence = sq, nodeIndex = 0\<rparr> \<and>
   characterInFocus (startSequence sq sh p l c st) = Some sh \<and>
   (p = Some True \<longrightarrow> isTimerPaused (startSequence sq sh p l c st))"
  by (simp add: startSequence_def Let_def)

text \<open>
  Claim C3 as stated does not hold: the inevitable sequence is started only if some
  stakeholder holds its role. In the example an inevitable sequence is due, a contingent
  sequence is due as well, and the scheduler starts neither.
\<close>

theorem scheduler_orphan_inevitable_counterexample:
  "appStep ex_app_free = game \<and> gameStatus ex_app_free = playing \<and>
   currentMeeting ex_app_free = None \<and>
   inevitableDue (gameState ex_app_free) ex_inevitable \<and>
   contingentDue (gameState ex_app_free) ex_contingent \<and>
   ex_inevitable \<in> set (sequences ex_content_orphan) \<and>
   ex_contingent \<in> set (sequences ex_content_orphan) \<and>
   currentMeeting (schedulerEffect ex_content_orphan ex_app_free) = None"
proof -
  have g: "gameState ex_app_free = ex_scheduled_state"
    by (simp add: ex_app_free_def)
  have i: "inevitableDue ex_scheduled_state ex_inevitable"
    by (simp add: inevitableDue_def scheduledNow_def ex_inevitable_def ex_scheduled_state_def
          ex_state_def)
  have c: "contingentDue ex_scheduled_state ex_contingent"
    by (simp add: contingentDue_def shouldTriggerContingentSequence_def ex_contingent_def
          ex_budget_rules_def ex_scheduled_state_def ex_state_def)
  have f: "inevitableSeq ex_content_orphan ex_scheduled_state = Some ex_inevitable"
    using i by (simp add: inevitableSeq_def inevitableDue_def ex_content_orphan_def)
  have n: "find (\<lambda>s. role s = stakeholderRole ex_inevitable) (stakeholders ex_scheduled_state)
             = None"
    by (simp add: ex_inevitable_def ex_scheduled_state_def ex_state_def ex_stakeholder_def)
  have s: "schedulerEffect ex_content_orphan ex_app_free = ex_app_free"
    by (simp add: schedulerEffect_def g f n Let_def)
  show ?thesis
    using i c by (simp add: s g) (simp add: ex_app_free_def ex_app_def ex_content_orphan_def)
qed

text \<open>
  Claim C3, amended. At a tick where the game is running, the status is playing and no
  sequence is in focus: if some uncompleted inevitable sequence is scheduled at the
  current day and slot, the scheduler selects the first such sequence of the catalogue,
  whether or not a contingent sequence is due as well. It starts that sequence (at node
  0, with its stakeholder in focus and the timer paused) when a stakeholder holds the
  sequence's role, and otherwise changes nothing. A sequence that is not inevitable is
  started only when no inevitable sequence is due, and then it is a due contingent one.
\<close>

theorem scheduler_inevitable_first:
  assumes "appStep st = game" and "gameStatus st = playing" and "currentMeeting st = None"
  shows
  "((\<exists>sq \<in> set (sequences cfg). inevitableDue (gameState st) sq) \<longrightarrow>
      (\<exists>isq. inevitableSeq cfg (gameState st) = Some isq \<and>
             isq \<in> set (sequences cfg) \<and> inevitableDue (gameState st) isq \<and>
             (case find (\<lambda>s. role s = stakeholderRole isq) (stakeholders (gameState st)) of
                Some sh \<Rightarrow>
                  currentMeeting (schedulerEffect cfg st)
                    = Some \<lparr>sequence = isq, nodeIndex = 0\<rparr> \<and>
                  characterInFocus (schedulerEffect cfg st) = Some sh \<and>
                  isTimerPaused (schedulerEffect cfg st)
              | None \<Rightarrow> schedulerEffect cfg st = st))) \<and>
   (\<forall>m. currentMeeting (schedulerEffect cfg st) = Some m \<and> \<not> isInevitable (sequence m) \<longrightarrow>
      (\<forall>sq \<in> set (sequences cfg). \<not> inevitableDue (gameState st) sq) \<and>
      contingentSeq cfg (gameState st) = Some (sequence m) \<and>
      contingentDue (gameState st) (sequence m))"
proof (intro conjI impI allI)
  assume "\<exists>sq \<in> set (sequences cfg). inevitableDue (gameState st) sq"
  then have "inevitableSeq cfg (gameState st) \<noteq> None"
    by (simp add: inevitableSeq_None)
  then obtain isq where isq: "inevitableSeq cfg (gameState st) = Some isq"
    by auto
  have eff: "schedulerEffect cfg st =
               (case find (\<lambda>s. role s = stakeholderRole isq) (stakeholders (gameState st)) of
                  None \<Rightarrow> st
                | Some sh \<Rightarrow> startSequence isq sh (Some True)
                    (Some (if isInevitable isq then ''Atender Situacion Inevitable''
                           else ''Atender Evento Contingente''))
                    (Some ''Obligatorio'') st)"
    using assms by (simp add: schedulerEffect_def isq Let_def)
  show "\<exists>isq. inevitableSeq cfg (gameState st) = Some isq \<and>
             isq \<in> set (sequences cfg) \<and> inevitableDue (gameState st) isq \<and>
             (case find (\<lambda>s. role s = stakeholderRole isq) (stakeholders (gameState st)) of
                Some sh \<Rightarrow>
                  currentMeeting (schedulerEffect cfg st)
                    = Some \<lparr>sequence = isq, nodeIndex = 0\<rparr> \<and>
                  characterInFocus (schedulerEffect cfg st) = Some sh \<and>
                  isTimerPaused (schedulerEffect cfg st)
              | None \<Rightarrow> schedulerEffect cfg st = st)"
    using isq inevitableSeq_Some [OF isq]
    by (intro exI [of _ isq]) (simp add: eff startSequence_cells split: option.splits)
next
  fix m
  assume m: "currentMeeting (schedulerEffect cfg st) = Some m \<and> \<not> isInevitable (sequence m)"
  have none: "inevitableSeq cfg (gameState st) = None"
  proof (rule ccontr)
    assume "inevitableSeq cfg (gameState st) \<noteq> None"
    then obtain isq where isq: "inevitableSeq cfg (gameState st) = Some isq"
      by auto
    then have "isInevitable isq"
      using inevitableSeq_Some [OF isq] by (simp add: inevitableDue_def)
    moreover have "sequence m = isq"
      using m assms
      by (auto simp: schedulerEffect_def isq Let_def startSequence_cells split: option.splits)
    ultimately show False
      using m by simp
  qed
  then show "\<forall>sq \<in> set (sequences cfg). \<not> inevitableDue (gameState st) sq"
    by (simp add: inevitableSeq_None)
  show c: "contingentSeq cfg (gameState st) = Some (sequence m)"
    using m assms
    by (auto simp: schedulerEffect_def none Let_def startSequence_cells split: option.splits)
  show "contingentDue (gameState st) (sequence m)"
    using contingentSeq_Some [OF c] by simp
qed

theorem scheduler_inevitable_first_witness:
  "appStep ex_app_free = game \<and> gameStatus ex_app_free = playing \<and>
   currentMeeting ex_app_free = None \<and>
   sequences ex_content_staffed = [ex_contingent, ex_inevitable_staffed] \<and>
   inevitableDue (gameState ex_app_free) ex_inevitable_staffed \<and>
   contingentDue (gameState ex_app_free) ex_contingent \<and>
   currentMeeting (schedulerEffect ex_content_staffed ex_app_free)
     = Some \<lparr>sequence = ex_inevitable_staffed, nodeIndex = 0\<rparr> \<and>
   characterInFocus (schedulerEffect ex_content_staffed ex_app_free) = Some ex_stakeholder \<and>
   isTimerPaused (schedulerEffect ex_content_staffed ex_app_free)"
proof -
  have a: "appStep ex_app_free = game" "gameStatus ex_app_free = playing"
    "currentMeeting ex_app_free = None"
    by (simp_all add: ex_app_free_def ex_app_def)
  have g: "gameState ex_app_free = ex_scheduled_state"
    by (simp add: ex_app_free_def)
  have i: "inevitableDue ex_scheduled_state ex_inevitable_staffed"
    by (simp add: inevitableDue_def scheduledNow_def ex_inevitable_staffed_def
          ex_inevitable_def ex_scheduled_state_def ex_state_def)
  have ni: "\<not> inevitableDue ex_scheduled_state ex_contingent"
    by (simp add: inevitableDue_def ex_contingent_def)
  have c: "contingentDue ex_scheduled_state ex_contingent"
    by (simp add: contingentDue_def shouldTriggerContingentSequence_def ex_contingent_def
          ex_budget_rules_def ex_scheduled_state_def ex_state_def)
  have q: "sequences ex_content_staffed = [ex_contingent, ex_inevitable_staffed]"
    by (simp add: ex_content_staffed_def)
  have f: "inevitableSeq ex_content_staffed ex_scheduled_state = Some ex_inevitable_staffed"
    using i ni by (auto simp: inevitableSeq_def inevitableDue_def q)
  have s: "find (\<lambda>s. role s = stakeholderRole ex_inevitable_staffed)
             (stakeholders ex_scheduled_state) = Some ex_stakeholder"
    by (simp add: ex_inevitable_staffed_def ex_inevitable_def ex_scheduled_state_def
          ex_state_def ex_stakeholder_def)
  show ?thesis
    using a i c q scheduler_inevitable_first [OF a, of ex_content_staffed]
    by (simp add: g f s)
qed

section \<open>Concluding a meeting\<close>

lemma lastMetDay_rolloverStakeholder:
  "lastMetDay (rolloverStakeholder d sh) = lastMetDay sh"
  by (simp add: rolloverStakeholder_def Let_def)

lemma advanceTime_lastMetDay:
  "map lastMetDay (stakeholders (advanceTime slots s)) = map lastMetDay (stakeholders s)"
  by (simp add: advanceTime_stakeholders lastMetDay_rolloverStakeholder)

lemma advanceTime_completedSequences:
  "completedSequences (advanceTime slots s) = completedSequences s"
  by (simp add: advanceTime_def Let_def)

lemma advanceTime_timeSlot:
  "timeSlot (advanceTime slots s) =
     js_nth slots (if dayBoundary slots s then 0 else slotIndex slots (timeSlot s) + 1)"
  by (simp add: advanceTime_def dayBoundary_def Let_def)

lemma dayBoundary_cong:
  "timeSlot s' = timeSlot s \<Longrightarrow> dayBoundary slots s' = dayBoundary slots s"
  by (simp add: dayBoundary_def)

lemma conclude_with_meeting:
  assumes "gameStatus st = playing" and "characterInFocus st = Some ch"
    and "currentMeeting st = Some m" and "action act = ''conclude_meeting''"
  shows "handlePlayerAction cfg pl act st =
           (advanceTimeAndUpdateFocus cfg (Some (sequence_id (sequence m)))
              (st\<lparr>currentMeeting := None\<rparr>))\<lparr>isLoading := False\<rparr>"
  using assms by (simp add: handlePlayerAction_def)

text \<open>
  Claim C5 as stated does not hold for every active meeting: the id of the concluded
  sequence is recorded only if it passes a truthiness test, which the empty string
  fails. In the example the meeting's sequence has the empty id and nothing is recorded.
\<close>

theorem conclude_unnamed_sequence_counterexample:
  "gameStatus ex_app_unnamed = playing \<and>
   characterInFocus ex_app_unnamed = Some ex_stakeholder \<and>
   currentMeeting ex_app_unnamed = Some \<lparr>sequence = ex_unnamed_sequence, nodeIndex = 1\<rparr> \<and>
   sequence_id ex_unnamed_sequence
     \<notin> set (completedSequences (gameState
              (handlePlayerAction ex_content None ex_conclude ex_app_unnamed))) \<and>
   completedSequences (gameState
       (handlePlayerAction ex_content None ex_conclude ex_app_unnamed)) = []"
proof -
  have a: "gameStatus ex_app_unnamed = playing"
    "characterInFocus ex_app_unnamed = Some ex_stakeholder"
    "currentMeeting ex_app_unnamed = Some \<lparr>sequence = ex_unnamed_sequence, nodeIndex = 1\<rparr>"
    "action ex_conclude = ''conclude_meeting''"
    by (simp_all add: ex_app_unnamed_def ex_app_def ex_conclude_def)
  have "completedSequences (gameState
          (handlePlayerAction ex_content None ex_conclude ex_app_unnamed)) = []"
    unfolding conclude_with_meeting [OF a]
    by (simp add: advanceTimeAndUpdateFocus_def Let_def advanceTime_completedSequences
          stateAfterMeetingEnd_def ex_unnamed_sequence_def ex_app_unnamed_def ex_app_def
          ex_state_def)
  then show ?thesis
    using a by simp
qed

text \<open>
  Claim C5, amended. While the status is playing and a stakeholder is in focus, for every
  active meeting whose sequence id is not the empty string, \<^verbatim>\<open>conclude_meeting\<close>
  \<^item> appends the sequence id to \<open>completedSequences\<close> unless it is already there, so
    the id is a member afterwards and no other entry is added;
  \<^item> sets \<open>lastMetDay\<close> to the current day for the stakeholders that bear the name of the
    character in focus, unless that character has the secretary role, in which case
    every \<open>lastMetDay\<close> is as before;
  \<^item> advances the clock by one period: the new game state is the result of one call of
    \<^verbatim>\<open>advanceTime\<close> on the state so prepared, with the day and slot that follow the
    current ones;
  \<^item> closes the meeting and releases the focus.
\<close>

theorem conclude_meeting_effect:
  assumes "gameStatus st = playing" and "characterInFocus st = Some ch"
    and "currentMeeting st = Some m" and "action act = ''conclude_meeting''"
    and "sequence_id (sequence m) \<noteq> []"
  shows
  "(let gs = gameState st;
        st' = handlePlayerAction cfg pl act st;
        gs' = gameState st';
        sid = sequence_id (sequence m);
        slots = TIME_SLOTS cfg;
        met = (\<lambda>sh. if role ch \<noteq> SECRETARY_ROLE cfg \<and> name sh = name ch
                     then sh\<lparr>lastMetDay := Some (day gs)\<rparr> else sh)
    in completedSequences gs' =
         (if sid \<in> set (completedSequences gs) then completedSequences gs
          else completedSequences gs @ [sid]) \<and>
       sid \<in> set (completedSequences gs') \<and>
       map lastMetDay (stakeholders gs') = map (lastMetDay \<circ> met) (stakeholders gs) \<and>
       advanceTime slots
         (gs\<lparr>completedSequences :=
                (if sid \<in> set (completedSequences gs) then completedSequences gs
                 else completedSequences gs @ [sid]),
              stakeholders := map met (stakeholders gs)\<rparr>) = gs' \<and>
       day gs' = (if dayBoundary slots gs then day gs + 1 else day gs) \<and>
       timeSlot gs' =
         js_nth slots (if dayBoundary slots gs then 0 else slotIndex slots (timeSlot gs) + 1) \<and>
       currentMeeting st' = None \<and> characterInFocus st' = None \<and>
       countdown st' = PERIOD_DURATION)"
proof -
  let ?sid = "sequence_id (sequence m)"
  let ?gs = "gameState st"
  let ?met = "\<lambda>sh. if role ch \<noteq> SECRETARY_ROLE cfg \<and> name sh = name ch
                     then sh\<lparr>lastMetDay := Some (day ?gs)\<rparr> else sh"
  let ?prep = "?gs\<lparr>completedSequences :=
                      (if ?sid \<in> set (completedSequences ?gs) then completedSequences ?gs
                       else completedSequences ?gs @ [?sid]),
                    stakeholders := map ?met (stakeholders ?gs)\<rparr>"
  have prep: "stateAfterMeetingEnd cfg (Some ?sid) (Some ch) ?gs = ?prep"
    using assms(5) by (simp add: stateAfterMeetingEnd_def Let_def)
  have st': "handlePlayerAction cfg pl act st =
               st\<lparr>currentMeeting := None, gameState := advanceTime (TIME_SLOTS cfg) ?prep,
                  characterInFocus := None, countdown := PERIOD_DURATION, isLoading := False\<rparr>"
    using assms(2)
    by (simp add: conclude_with_meeting [OF assms(1-4)] advanceTimeAndUpdateFocus_def
          Let_def prep)
  have b: "dayBoundary (TIME_SLOTS cfg) ?prep = dayBoundary (TIME_SLOTS cfg) ?gs"
    by (rule dayBoundary_cong) simp
  show ?thesis
    unfolding Let_def st'
    by (simp add: advanceTime_completedSequences advanceTime_lastMetDay advanceTime_day
          advanceTime_timeSlot b)
qed

theorem conclude_meeting_effect_witness:
  "gameStatus ex_app = playing \<and> characterInFocus ex_app = Some ex_stakeholder \<and>
   currentMeeting ex_app = Some \<lparr>sequence = ex_sequence, nodeIndex = 0\<rparr> \<and>
   sequence_id ex_sequence \<noteq> [] \<and>
   completedSequences (gameState (handlePlayerAction ex_content None ex_conclude ex_app))
     = [''SEQ_1''] \<and>
   map lastMetDay (stakeholders (gameState
       (handlePlayerAction ex_content None ex_conclude ex_app))) = [Some 5] \<and>
   day (gameState (handlePlayerAction ex_content None ex_conclude ex_app)) = 6 \<and>
   timeSlot (gameState (handlePlayerAction ex_content None ex_conclude ex_app))
     = Some ''manana'' \<and>
   currentMeeting (handlePlayerAction ex_content None ex_conclude ex_app) = None"
proof -
  have a: "gameStatus ex_app = playing" "characterInFocus ex_app = Some ex_stakeholder"
    "currentMeeting ex_app = Some \<lparr>sequence = ex_sequence, nodeIndex = 0\<rparr>"
    "action ex_conclude = ''conclude_meeting''"
    "sequence_id (sequence \<lparr>sequence = ex_sequence, nodeIndex = 0\<rparr>) \<noteq> []"
    by (simp_all add: ex_app_def ex_conclude_def ex_sequence_def)
  have b: "dayBoundary (TIME_SLOTS ex_content) (gameState ex_app)"
    by (simp add: dayBoundary_def slotIndex_def ex_content_def ex_slots_def ex_app_def
          ex_state_def)
  have v: "TIME_SLOTS ex_content = ex_slots" "SECRETARY_ROLE ex_content = ''Secretaria''"
    "gameState ex_app = ex_state" "sequence_id ex_sequence = ''SEQ_1''"
    "completedSequences ex_state = []" "stakeholders ex_state = [ex_stakeholder]"
    "day ex_state = 5" "role ex_stakeholder = ''Jefe Sector Azul''"
    "js_nth ex_slots 0 = Some ''manana''"
    by (simp_all add: ex_content_def ex_app_def ex_sequence_def ex_state_def
          ex_stakeholder_def ex_slots_def js_nth_def)
  have t: "completedSequences (gameState
             (handlePlayerAction ex_content None ex_conclude ex_app)) = [''SEQ_1''] \<and>
           map lastMetDay (stakeholders (gameState
             (handlePlayerAction ex_content None ex_conclude ex_app))) = [Some 5] \<and>
           day (gameState (handlePlayerAction ex_content None ex_conclude ex_app)) = 6 \<and>
           timeSlot (gameState (handlePlayerAction ex_content None ex_conclude ex_app))
             = Some ''manana'' \<and>
           currentMeeting (handlePlayerAction ex_content None ex_conclude ex_app) = None"
    using b conclude_meeting_effect [OF a, of ex_content None]
    by (simp add: Let_def v)
  show ?thesis
    using a(1-3) t by (simp add: v)
qed

section \<open>Continuing past the last node\<close>

lemma find_never: "find (\<lambda>x. False) xs = None"
  by (induction xs) simp_all

text \<open>
  Claim C6 as stated does not hold: \<^verbatim>\<open>continue_meeting_sequence\<close> increments the
  node index without looking at the length of the node list. In the example the meeting
  is on the last node (index 1 of 2) and the action moves it to index 2.
\<close>

theorem continue_past_last_node_counterexample:
  "currentMeeting ex_app_last = Some \<lparr>sequence = ex_sequence, nodeIndex = 1\<rparr> \<and>
   int (length (nodes ex_sequence)) - 1 = 1 \<and>
   currentMeeting (handlePlayerAction ex_content None ex_continue ex_app_last)
     = Some \<lparr>sequence = ex_sequence, nodeIndex = 2\<rparr> \<and>
   handlePlayerAction ex_content None ex_continue ex_app_last \<noteq> ex_app_last"
proof -
  have c: "currentMeeting (handlePlayerAction ex_content None ex_continue
             ex_app_last) = Some \<lparr>sequence = ex_sequence, nodeIndex = 2\<rparr>"
    by (simp add: handlePlayerAction_def ex_continue_def ex_app_last_def
          ex_app_def ex_content_def ex_sequence_def ex_node_def js_nth_def Let_def)
  have m: "currentMeeting ex_app_last = Some \<lparr>sequence = ex_sequence, nodeIndex = 1\<rparr>"
    by (simp add: ex_app_last_def)
  have "handlePlayerAction ex_content None ex_continue ex_app_last \<noteq> ex_app_last"
  proof
    assume "handlePlayerAction ex_content None ex_continue ex_app_last
              = ex_app_last"
    then have "currentMeeting (handlePlayerAction ex_content None ex_continue
                 ex_app_last) = currentMeeting ex_app_last"
      by simp
    then show False
      by (simp add: c m)
  qed
  then show ?thesis
    using c m by (simp add: ex_sequence_def)
qed

text \<open>
  Claim C6, amended. If \<^verbatim>\<open>continue_meeting_sequence\<close> is invoked (status playing, a
  stakeholder in focus) while the node index is the last index of the sequence's node
  list, no error is raised, no scenario is presented and the game state stays as it is,
  but the operation does not fail closed: the meeting's node index is incremented to one
  past the last index. This is so in both components. In the base application the
  other cells keep their values; \<^verbatim>\<open>InnovatecGame\<close> has cleared the dialogue text by
  then, as it does at the start of every action.
\<close>

theorem continue_past_last_node:
  fixes st :: "'a AppState"
  assumes "gameStatus st = playing" and "characterInFocus st = Some ch"
    and "currentMeeting st = Some m" and "action act = ''continue_meeting_sequence''"
    and "nodeIndex m = int (length (nodes (sequence m))) - 1"
  shows "handlePlayerAction cfg pl act st =
           st\<lparr>currentMeeting := Some (m\<lparr>nodeIndex := int (length (nodes (sequence m)))\<rparr>),
              isLoading := False\<rparr> \<and>
         gameState (handlePlayerAction cfg pl act st) = gameState st \<and>
         sequenceAction_innovatec cfg act st =
           Some (st\<lparr>currentMeeting := Some (m\<lparr>nodeIndex := int (length (nodes (sequence m)))\<rparr>),
                    currentDialogue := [], isLoading := False\<rparr>) \<and>
         map_option gameState (sequenceAction_innovatec cfg act st) = Some (gameState st)"
  using assms
  by (simp add: handlePlayerAction_def sequenceAction_innovatec_def js_nth_def Let_def
        find_never personalize_def)

theorem continue_past_last_node_witness:
  "gameStatus ex_app_last = playing \<and> characterInFocus ex_app_last = Some ex_stakeholder \<and>
   currentMeeting ex_app_last = Some \<lparr>sequence = ex_sequence, nodeIndex = 1\<rparr> \<and>
   int (length (nodes ex_sequence)) - 1 = 1 \<and>
   handlePlayerAction ex_content None ex_continue ex_app_last
     = ex_app_last\<lparr>currentMeeting := Some \<lparr>sequence = ex_sequence, nodeIndex = 2\<rparr>\<rparr> \<and>
   sequenceAction_innovatec ex_content ex_continue ex_app_last
     = Some (ex_app_last\<lparr>currentMeeting := Some \<lparr>sequence = ex_sequence, nodeIndex = 2\<rparr>\<rparr>)"
proof -
  have a: "gameStatus ex_app_last = playing" "characterInFocus ex_app_last = Some ex_stakeholder"
    "currentMeeting ex_app_last = Some \<lparr>sequence = ex_sequence, nodeIndex = 1\<rparr>"
    "action ex_continue = ''continue_meeting_sequence''"
    "nodeIndex \<lparr>sequence = ex_sequence, nodeIndex = 1\<rparr>
       = int (length (nodes (sequence \<lparr>sequence = ex_sequence, nodeIndex = 1\<rparr>))) - 1"
    by (simp_all add: ex_app_last_def ex_app_def ex_continue_def ex_sequence_def)
  have l: "isLoading ex_app_last = False" "currentDialogue ex_app_last = []"
    "int (length (nodes ex_sequence)) = 2"
    by (simp_all add: ex_app_last_def ex_app_def ex_sequence_def)
  show ?thesis
    using a(1-3) l continue_past_last_node [OF a, of ex_content None]
    by (simp add: ex_app_last_def ex_app_def)
qed

section \<open>Concluding a meeting in the Innovatec variant\<close>

lemma lastMetDay_rolloverStakeholder_innovatec:
  "lastMetDay (rolloverStakeholder_innovatec r c d sh) = lastMetDay sh"
  by (simp add: rolloverStakeholder_innovatec_def Let_def)

lemma advanceTime_innovatec_completedSequences:
  "completedSequences (advanceTime_innovatec cfg s) = completedSequences s"
  by (simp add: advanceTime_innovatec_def Let_def)

lemma advanceTime_innovatec_timeSlot:
  "timeSlot (advanceTime_innovatec cfg s) =
     js_nth (TIME_SLOTS cfg)
       (if dayBoundary (TIME_SLOTS cfg) s then 0
        else slotIndex (TIME_SLOTS cfg) (timeSlot s) + 1)"
  by (simp add: advanceTime_innovatec_def dayBoundary_def Let_def)

text \<open>
  The state that \<^verbatim>\<open>InnovatecGame\<close> publishes when a meeting over a sequence with a
  non-empty id is concluded with a character in focus: the same bookkeeping as in the
  base application, whatever email is or is not delivered.
\<close>

lemma innovatec_conclude_bookkeeping:
  assumes "sid \<noteq> []"
  shows
  "(let gs' = newStateAfterMeeting_innovatec cfg templates rnd (Some sid) (Some ch) gs;
        slots = TIME_SLOTS cfg;
        met = (\<lambda>sh. if role ch \<noteq> SECRETARY_ROLE cfg \<and> name sh = name ch
                     then sh\<lparr>lastMetDay := Some (day gs)\<rparr> else sh)
    in completedSequences gs' =
         (if sid \<in> set (completedSequences gs) then completedSequences gs
          else completedSequences gs @ [sid]) \<and>
       map lastMetDay (stakeholders gs') = map (lastMetDay \<circ> met) (stakeholders gs) \<and>
       day gs' = (if dayBoundary slots gs then day gs + 1 else day gs) \<and>
       timeSlot gs' =
         js_nth slots (if dayBoundary slots gs then 0 else slotIndex slots (timeSlot gs) + 1))"
  using assms
  by (simp add: newStateAfterMeeting_innovatec_def Let_def
        advanceTime_innovatec_completedSequences advanceTime_innovatec_stakeholders
        advanceTime_innovatec_day advanceTime_innovatec_timeSlot dayBoundary_def
        lastMetDay_rolloverStakeholder_innovatec)

end
